theory Spec2Isabelle
  imports Complex_Main
begin

section \<open>JavaScript values received from a connection\<close>

text \<open>
  A payload of a \<^verbatim>\<open>playerInput\<close> event is an arbitrary JavaScript value.
  Numbers are modelled as reals (NaN and the infinities are left out), an object as
  its table of own properties, read with \<open>map_of\<close>.
\<close>

datatype jsval =
    JUndefined
  | JNull
  | JBool bool
  | JNum real
  | JStr string
  | JObj "(string \<times> jsval) list"
  | JArr "jsval list"

text \<open>\<^verbatim>\<open>Boolean(v)\<close> and the truthiness test of \<^verbatim>\<open>!v\<close>.\<close>

fun Boolean :: "jsval \<Rightarrow> bool" where
  "Boolean JUndefined = False"
| "Boolean JNull = False"
| "Boolean (JBool b) = b"
| "Boolean (JNum n) = (n \<noteq> 0)"
| "Boolean (JStr s) = (s \<noteq> [])"
| "Boolean (JObj kvs) = True"
| "Boolean (JArr vs) = True"

fun typeof :: "jsval \<Rightarrow> string" where
  "typeof JUndefined = ''undefined''"
| "typeof JNull = ''object''"
| "typeof (JBool b) = ''boolean''"
| "typeof (JNum n) = ''number''"
| "typeof (JStr s) = ''string''"
| "typeof (JObj kvs) = ''object''"
| "typeof (JArr vs) = ''object''"

text \<open>
  \<^verbatim>\<open>key in v\<close> and \<^verbatim>\<open>v[key]\<close> for a (non-numeric) string key. An array has no
  property under such a key. The two are only evaluated on values of object type.
\<close>

fun has_key :: "string \<Rightarrow> jsval \<Rightarrow> bool" where
  "has_key k (JObj kvs) = (map_of kvs k \<noteq> None)"
| "has_key k v = False"

fun get_prop :: "string \<Rightarrow> jsval \<Rightarrow> jsval" where
  "get_prop k (JObj kvs) = (case map_of kvs k of None \<Rightarrow> JUndefined | Some v \<Rightarrow> v)"
| "get_prop k v = JUndefined"

section \<open>Input Handler (server/src/input/InputHandler.js)\<close>

text \<open>
  The handler's state is the map \<^verbatim>\<open>lastInputTime\<close> from connection identifiers
  to the time in milliseconds of the last accepted input. \<^verbatim>\<open>Date.now()\<close> is a
  parameter \<open>now\<close> of every operation that reads the clock.
\<close>

record inputHandler =
  lastInputTime :: "string \<rightharpoonup> int"

definition validInputs :: "string list" where
  "validInputs = [''left'', ''right'', ''forward'', ''backward'', ''jump'']"

definition INPUT_RATE_LIMIT :: int where
  "INPUT_RATE_LIMIT = 16"


text \<open>
  The body of the loop \<^verbatim>\<open>for (const key of this.validInputs)\<close>: the object
  \<^verbatim>\<open>validatedInput\<close> under construction is a table from keys to booleans.
\<close>

fun validateKeys :: "string list \<Rightarrow> jsval \<Rightarrow> (string \<rightharpoonup> bool) \<Rightarrow> (string \<rightharpoonup> bool)" where
  "validateKeys [] inputData validatedInput = validatedInput"
| "validateKeys (key # keys) inputData validatedInput =
     validateKeys keys inputData
       (if has_key key inputData
        then validatedInput(key \<mapsto> Boolean (get_prop key inputData))
        else validatedInput)"

text \<open>\<^verbatim>\<open>validateInput\<close>: \<open>None\<close> is the returned \<^verbatim>\<open>null\<close>.\<close>

definition validateInput :: "jsval \<Rightarrow> (string \<rightharpoonup> bool) option" where
  "validateInput inputData =
     (if \<not> Boolean inputData \<or> typeof inputData \<noteq> ''object'' then None
      else Some (validateKeys validInputs inputData Map.empty))"

text \<open>
  \<^verbatim>\<open>shouldProcessInput\<close>: returns the verdict and the handler after the call.
  \<^verbatim>\<open>this.lastInputTime.get(playerId) || 0\<close> is 0 for a missing entry and for a
  stored 0.
\<close>

definition lastTimeOf :: "inputHandler \<Rightarrow> string \<Rightarrow> int" where
  "lastTimeOf h playerId =
     (case lastInputTime h playerId of None \<Rightarrow> 0 | Some t \<Rightarrow> (if t = 0 then 0 else t))"

definition shouldProcessInput :: "int \<Rightarrow> string \<Rightarrow> inputHandler \<Rightarrow> bool \<times> inputHandler" where
  "shouldProcessInput now playerId h =
     (let lastTime = lastTimeOf h playerId in
      if now - lastTime \<ge> INPUT_RATE_LIMIT
      then (True, h\<lparr> lastInputTime := (lastInputTime h)(playerId \<mapsto> now) \<rparr>)
      else (False, h))"

definition cleanupPlayer :: "string \<Rightarrow> inputHandler \<Rightarrow> inputHandler" where
  "cleanupPlayer playerId h = h\<lparr> lastInputTime := (lastInputTime h)(playerId := None) \<rparr>"

section \<open>Vectors and the rigid bodies of the solver\<close>

record vec3 =
  vec_x :: real
  vec_y :: real
  vec_z :: real

definition Vec3 :: "real \<Rightarrow> real \<Rightarrow> real \<Rightarrow> vec3" where
  "Vec3 a b c = \<lparr> vec_x = a, vec_y = b, vec_z = c \<rparr>"

text \<open>\<^verbatim>\<open>Math.hypot\<close> on two arguments, over the reals.\<close>

definition hypot :: "real \<Rightarrow> real \<Rightarrow> real" where
  "hypot a b = sqrt (a * a + b * b)"

text \<open>
  A \<^verbatim>\<open>CANNON.Body\<close> as far as the server reads and writes it. Bodies are shared
  between a Player and the solver's world, so they live in a store indexed by
  reference; the reference doubles as the body's \<^verbatim>\<open>id\<close>.
\<close>

record body =
  position :: vec3
  velocity :: vec3
  angularVelocity :: vec3
  mass :: real
  force :: vec3

type_synonym store = "nat \<Rightarrow> body"

text \<open>
  Modelled from the spec: the rigid-body solver (the cannon-es package) is not part of
  the repository's sources. Its world is a gravity vector and the registry of bodies;
  adding a registered body and removing an unregistered one change nothing
  (``removal must be idempotent''); \<^verbatim>\<open>applyForce\<close> at the centre of mass
  accumulates the force on the body.
\<close>

record cannonWorld =
  gravity :: vec3
  bodies :: "nat list"

definition world_addBody :: "nat \<Rightarrow> cannonWorld \<Rightarrow> cannonWorld" where
  "world_addBody b w = (if b \<in> set (bodies w) then w else w\<lparr> bodies := bodies w @ [b] \<rparr>)"

definition world_removeBody :: "nat \<Rightarrow> cannonWorld \<Rightarrow> cannonWorld" where
  "world_removeBody b w = w\<lparr> bodies := remove1 b (bodies w) \<rparr>"

definition applyForce :: "vec3 \<Rightarrow> body \<Rightarrow> body" where
  "applyForce f bd =
     bd\<lparr> force := Vec3 (vec_x (force bd) + vec_x f) (vec_y (force bd) + vec_y f)
                        (vec_z (force bd) + vec_z f) \<rparr>"

text \<open>
  The two solver operations whose results the server only consumes are parameters:
  the closest-hit ray cast and the integration step.
\<close>

record raycastResult =
  hasHit :: bool
  distance :: real

record engine =
  raycastClosest :: "cannonWorld \<Rightarrow> store \<Rightarrow> vec3 \<Rightarrow> vec3 \<Rightarrow> raycastResult"
  worldStep :: "real \<Rightarrow> cannonWorld \<Rightarrow> store \<Rightarrow> store"

section \<open>Physics World (the PhysicsWorld class)\<close>

record physicsWorld =
  world :: "cannonWorld option"
  isEnabled :: bool

definition newPhysicsWorld :: physicsWorld where
  "newPhysicsWorld = \<lparr> world = None, isEnabled = False \<rparr>"

definition isPhysicsEnabled :: "physicsWorld \<Rightarrow> bool" where
  "isPhysicsEnabled pw = isEnabled pw"

definition getWorld :: "physicsWorld \<Rightarrow> cannonWorld option" where
  "getWorld pw = world pw"

definition step :: "engine \<Rightarrow> real \<Rightarrow> physicsWorld \<Rightarrow> store \<Rightarrow> store" where
  "step E deltaTime pw st =
     (case world pw of
        None \<Rightarrow> st
      | Some w \<Rightarrow> if isEnabled pw then worldStep E deltaTime w st else st)"

definition addBody :: "nat \<Rightarrow> physicsWorld \<Rightarrow> physicsWorld" where
  "addBody b pw =
     (case world pw of
        None \<Rightarrow> pw
      | Some w \<Rightarrow> if isEnabled pw then pw\<lparr> world := Some (world_addBody b w) \<rparr> else pw)"

definition removeBody :: "nat \<Rightarrow> physicsWorld \<Rightarrow> physicsWorld" where
  "removeBody b pw =
     (case world pw of
        None \<Rightarrow> pw
      | Some w \<Rightarrow> if isEnabled pw then pw\<lparr> world := Some (world_removeBody b w) \<rparr> else pw)"

text \<open>
  \<^verbatim>\<open>getDebugData\<close>, restricted to the identifier and position of each body (the
  orientation and the shape descriptors are not part of the body model).
  \<^verbatim>\<open>body.id || index\<close> is the index for the body whose id is 0.
\<close>

record bodyData =
  bd_id :: nat
  bd_position :: vec3

definition getDebugData :: "physicsWorld \<Rightarrow> store \<Rightarrow> bodyData list" where
  "getDebugData pw st =
     (case world pw of
        None \<Rightarrow> []
      | Some w \<Rightarrow>
          if \<not> isEnabled pw then []
          else map (\<lambda>(index, b). \<lparr> bd_id = (if b = 0 then index else b),
                                   bd_position = position (st b) \<rparr>)
                   (enumerate 0 (bodies w)))"

section \<open>Participant entity (server/src/entities/Player.js)\<close>

record inputState =
  left :: bool
  right :: bool
  forward :: bool
  backward :: bool
  jump :: bool

text \<open>
  The fields of a Player. \<open>body\<close> is the reference of the owned rigid body, \<open>None\<close>
  when the field was never assigned (physics disabled at construction).
\<close>

record player =
  id_player :: string
  color :: string
  lastUpdate :: int
  onGround :: bool
  input :: inputState
  positionP :: vec3
  velocityP :: vec3
  body :: "nat option"

definition xxxx :: real where "xxxx = 150"
definition SPEED :: real where "SPEED = 16.0 * xxxx"
definition MAX_HORIZONTAL_SPEED :: real where "MAX_HORIZONTAL_SPEED = 18.0 * xxxx"
definition ACCELERATION :: real where "ACCELERATION = 19.0 * xxxx"
definition AIR_ACCELERATION :: real where "AIR_ACCELERATION = 1.4"
definition JUMP_FORCE :: real where "JUMP_FORCE = 1.3"
definition LINEAR_DAMPING :: real where "LINEAR_DAMPING = 0.18"
definition FLOATINESS :: real where "FLOATINESS = 0.35"
definition VELOCITY_LERP :: real where "VELOCITY_LERP = 18.0"

datatype error = TypeError

text \<open>
  \<^verbatim>\<open>generateRandomColor\<close>: \<open>r\<close> is the value of \<^verbatim>\<open>Math.random()\<close>, in \<open>[0, 1)\<close>;
  outside that range the array read is \<^verbatim>\<open>undefined\<close>.
\<close>

definition colors :: "string list" where
  "colors = [''#ff6b6b'', ''#4ecdc4'', ''#45b7d1'', ''#96ceb4'',
             ''#feca57'', ''#ff9ff3'', ''#54a0ff'', ''#5f27cd'']"

definition generateRandomColor :: "real \<Rightarrow> string" where
  "generateRandomColor r =
     (let i = \<lfloor>r * real (length colors)\<rfloor> in
      if 0 \<le> i \<and> nat i < length colors then colors ! nat i else ''undefined'')"

text \<open>
  \<^verbatim>\<open>createPhysicsBody\<close>: \<open>b\<close> is the reference of the body that
  \<^verbatim>\<open>new CANNON.Body\<close> allocates when physics is enabled.
\<close>

definition createPhysicsBody ::
  "nat \<Rightarrow> real \<Rightarrow> real \<Rightarrow> real \<Rightarrow> player \<times> physicsWorld \<times> store \<Rightarrow> player \<times> physicsWorld \<times> store" where
  "createPhysicsBody b x y z s =
     (case s of (p, pw, st) \<Rightarrow>
        if \<not> isPhysicsEnabled pw
        then (p\<lparr> positionP := Vec3 x y z, velocityP := Vec3 0 0 0 \<rparr>, pw, st)
        else
          (p\<lparr> body := Some b, positionP := Vec3 x y z, velocityP := Vec3 0 0 0 \<rparr>,
           addBody b pw,
           st(b := \<lparr> position = Vec3 x y z, velocity = Vec3 0 0 0,
                     angularVelocity = Vec3 0 0 0, mass = 1, force = Vec3 0 0 0 \<rparr>)))"

text \<open>The constructor, with its default position \<open>(0, 2, 0)\<close> supplied by the caller.\<close>

definition newPlayer ::
  "string \<Rightarrow> real \<Rightarrow> int \<Rightarrow> nat \<Rightarrow> real \<Rightarrow> real \<Rightarrow> real \<Rightarrow> physicsWorld \<times> store
     \<Rightarrow> player \<times> physicsWorld \<times> store" where
  "newPlayer pid r now b x y z ws =
     (case ws of (pw, st) \<Rightarrow>
        createPhysicsBody b x y z
          (\<lparr> id_player = pid, color = generateRandomColor r, lastUpdate = now,
             onGround = False,
             input = \<lparr> left = False, right = False, forward = False, backward = False,
                       jump = False \<rparr>,
             positionP = Vec3 0 0 0, velocityP = Vec3 0 0 0, body = None \<rparr>, pw, st))"

text \<open>
  \<^verbatim>\<open>updateInput\<close>: the spread \<^verbatim>\<open>{ ...this.input, ...inputData }\<close> on the five
  fields that the entity reads; its only caller passes a validated record, whose keys
  are among those five.
\<close>

definition spreadKey :: "(string \<rightharpoonup> bool) \<Rightarrow> string \<Rightarrow> bool \<Rightarrow> bool" where
  "spreadKey inputData key old = (case inputData key of None \<Rightarrow> old | Some v \<Rightarrow> v)"

definition updateInput :: "(string \<rightharpoonup> bool) \<Rightarrow> player \<Rightarrow> player" where
  "updateInput inputData p =
     p\<lparr> input :=
          \<lparr> left = spreadKey inputData ''left'' (left (input p)),
            right = spreadKey inputData ''right'' (right (input p)),
            forward = spreadKey inputData ''forward'' (forward (input p)),
            backward = spreadKey inputData ''backward'' (backward (input p)),
            jump = spreadKey inputData ''jump'' (jump (input p)) \<rparr> \<rparr>"

text \<open>\<^verbatim>\<open>processInput\<close> of the Input Handler: the verdict, the handler and the Player after the call.\<close>

definition processInput ::
  "int \<Rightarrow> string \<Rightarrow> jsval \<Rightarrow> inputHandler \<times> player \<Rightarrow> bool \<times> inputHandler \<times> player" where
  "processInput now playerId inputData hp =
     (case hp of (h, p) \<Rightarrow>
        (case validateInput inputData of
           None \<Rightarrow> (False, h, p)
         | Some validInput \<Rightarrow>
             (case shouldProcessInput now playerId h of (ok, h') \<Rightarrow>
                if \<not> ok then (False, h', p)
                else (True, h', updateInput validInput p))))"

subsection \<open>The two movement modes\<close>

text \<open>
  The target horizontal velocity. \<^verbatim>\<open>updateSimpleMovement\<close> and
  \<^verbatim>\<open>applyMovementForces\<close> both open with these statements, word for word
  (the length is called \<^verbatim>\<open>len\<close> in one and \<^verbatim>\<open>hLen\<close> in the other).
\<close>

definition targetVelocity :: "inputState \<Rightarrow> real \<times> real" where
  "targetVelocity i =
     (let targetX = (0::real);
          targetZ = (0::real);
          targetX = (if left i then targetX - SPEED else targetX);
          targetX = (if right i then targetX + SPEED else targetX);
          targetZ = (if forward i then targetZ - SPEED else targetZ);
          targetZ = (if backward i then targetZ + SPEED else targetZ);
          hLen = hypot targetX targetZ
      in if hLen > SPEED
         then ((targetX / hLen) * SPEED, (targetZ / hLen) * SPEED)
         else (targetX, targetZ))"

text \<open>\<^verbatim>\<open>updateSimpleMovement\<close>, the kinematic fallback.\<close>

definition updateSimpleMovement :: "real \<Rightarrow> player \<Rightarrow> player" where
  "updateSimpleMovement deltaTime0 p =
     (let deltaTime = (if deltaTime0 > 0.1 then deltaTime0 / 1000 else deltaTime0);
          (targetX, targetZ) = targetVelocity (input p);
          lerp = min 1 (VELOCITY_LERP * deltaTime);
          v = velocityP p;
          v = v\<lparr> vec_x := vec_x v + (targetX - vec_x v) * lerp \<rparr>;
          v = v\<lparr> vec_z := vec_z v + (targetZ - vec_z v) * lerp \<rparr>;
          q = positionP p;
          q = q\<lparr> vec_x := vec_x q + vec_x v * deltaTime \<rparr>;
          q = q\<lparr> vec_z := vec_z q + vec_z v * deltaTime \<rparr>;
          q = q\<lparr> vec_x := max (- 50) (min 50 (vec_x q)) \<rparr>;
          q = q\<lparr> vec_z := max (- 50) (min 50 (vec_z q)) \<rparr>;
          q = q\<lparr> vec_y := max 0 (vec_y q) \<rparr>
      in p\<lparr> velocityP := v, positionP := q \<rparr>)"

text \<open>
  \<^verbatim>\<open>checkGroundContact\<close>. \<^verbatim>\<open>this.physicsWorld.getWorld\<close> is a method and so
  truthy; with a body and no world, the call on \<^verbatim>\<open>null\<close> throws. \<open>groundProbe\<close>
  is the ray cast of the method and the test on its result.
\<close>

definition groundProbe :: "engine \<Rightarrow> cannonWorld \<Rightarrow> store \<Rightarrow> nat \<Rightarrow> bool" where
  "groundProbe E w st b =
     (let q = position (st b);
          start = Vec3 (vec_x q) (vec_y q) (vec_z q);
          end' = Vec3 (vec_x q) (vec_y q - 1.05) (vec_z q);
          result = raycastClosest E w st start end'
      in hasHit result \<and> distance result < 1.01)"

definition checkGroundContact ::
  "engine \<Rightarrow> physicsWorld \<Rightarrow> player \<times> store \<Rightarrow> error + player \<times> store" where
  "checkGroundContact E pw ps =
     (case ps of (p, st) \<Rightarrow>
        (case body p of
           None \<Rightarrow> Inr (p, st)
         | Some b \<Rightarrow>
             (case getWorld pw of
                None \<Rightarrow> Inl TypeError
              | Some w \<Rightarrow> Inr (p\<lparr> onGround := groundProbe E w st b \<rparr>, st))))"

text \<open>\<^verbatim>\<open>applyMovementForces\<close>: \<open>vel\<close> is the body's velocity vector, updated in place.\<close>

definition clampHorizontal :: "real \<Rightarrow> vec3 \<Rightarrow> vec3" where
  "clampHorizontal limit vel =
     (let hv = hypot (vec_x vel) (vec_z vel) in
      if hv > limit
      then (let s = limit / hv in vel\<lparr> vec_x := vec_x vel * s, vec_z := vec_z vel * s \<rparr>)
      else vel)"

definition applyMovementForces :: "real \<Rightarrow> player \<times> store \<Rightarrow> player \<times> store" where
  "applyMovementForces deltaTime ps =
     (case ps of (p, st) \<Rightarrow>
        (case body p of
           None \<Rightarrow> (p, st)
         | Some b \<Rightarrow>
             let (targetX, targetZ) = targetVelocity (input p);
                 vel = velocity (st b)
             in if onGround p then
                  (let lerp = min 1 (ACCELERATION * deltaTime);
                       vel = vel\<lparr> vec_x := vec_x vel + (targetX - vec_x vel) * lerp \<rparr>;
                       vel = vel\<lparr> vec_z := vec_z vel + (targetZ - vec_z vel) * lerp \<rparr>;
                       vel = clampHorizontal MAX_HORIZONTAL_SPEED vel
                   in if jump (input p) \<and> onGround p
                      then (p\<lparr> onGround := False \<rparr>,
                            st(b := (st b)\<lparr> velocity := vel\<lparr> vec_y := JUMP_FORCE \<rparr> \<rparr>))
                      else (p, st(b := (st b)\<lparr> velocity := vel \<rparr>)))
                else
                  (let desiredX = targetX - vec_x vel;
                       desiredZ = targetZ - vec_z vel;
                       forceX = desiredX * AIR_ACCELERATION * mass (st b);
                       forceZ = desiredZ * AIR_ACCELERATION * mass (st b);
                       f = Vec3 forceX 0 forceZ;
                       bd = applyForce f (st b);
                       vel = clampHorizontal (MAX_HORIZONTAL_SPEED * 1.4) vel
                   in (p, st(b := bd\<lparr> velocity := vel \<rparr>)))))"

text \<open>\<^verbatim>\<open>applyBoundaryConstraints\<close>.\<close>

definition boundary :: real where
  "boundary = 48"

definition applyBoundaryConstraints :: "player \<times> store \<Rightarrow> player \<times> store" where
  "applyBoundaryConstraints ps =
     (case ps of (p, st) \<Rightarrow>
        (case body p of
           None \<Rightarrow> (p, st)
         | Some b \<Rightarrow>
             let q = position (st b) in
             if \<bar>vec_x q\<bar> > boundary \<or> \<bar>vec_z q\<bar> > boundary \<or> vec_y q < - 10
             then (p, st(b := (st b)\<lparr> position := Vec3 0 5 0, velocity := Vec3 0 0 0,
                                        angularVelocity := Vec3 0 0 0 \<rparr>))
             else (p, st)))"

text \<open>
  The floatiness block of \<^verbatim>\<open>update\<close>: an upward force while airborne, when the
  world exists (its gravity vector is an object, hence truthy).
\<close>

definition applyFloatiness :: "physicsWorld \<Rightarrow> nat \<Rightarrow> player \<times> store \<Rightarrow> player \<times> store" where
  "applyFloatiness pw b ps =
     (case ps of (p, st) \<Rightarrow>
        if \<not> onGround p \<and> FLOATINESS > 0 then
          (case getWorld pw of
             None \<Rightarrow> (p, st)
           | Some w \<Rightarrow>
               let gravityY = vec_y (gravity w);
                   upForce = mass (st b) * (- gravityY) * FLOATINESS
               in (p, st(b := applyForce (Vec3 0 upForce 0) (st b))))
        else (p, st))"

text \<open>
  The normalisation of the elapsed time at the head of \<^verbatim>\<open>update\<close>; \<open>now\<close> is the
  reading of \<^verbatim>\<open>Date.now()\<close> during the call.
\<close>

definition normalizeDelta :: "int \<Rightarrow> jsval \<Rightarrow> player \<Rightarrow> real" where
  "normalizeDelta now deltaTime p =
     (let deltaTime = (case deltaTime of
                         JNum d \<Rightarrow> d
                       | _ \<Rightarrow> real_of_int (now - lastUpdate p) / 1000)
      in if deltaTime > 0.1 then deltaTime / 1000 else deltaTime)"

text \<open>\<^verbatim>\<open>update\<close>.\<close>

definition update ::
  "engine \<Rightarrow> physicsWorld \<Rightarrow> int \<Rightarrow> jsval \<Rightarrow> player \<times> store \<Rightarrow> error + player \<times> store" where
  "update E pw now deltaTime0 ps =
     (case ps of (p, st) \<Rightarrow>
        let deltaTime = normalizeDelta now deltaTime0 p in
        (case body p of
           None \<Rightarrow> Inr ((updateSimpleMovement deltaTime p)\<lparr> lastUpdate := now \<rparr>, st)
         | Some b \<Rightarrow>
             if \<not> isPhysicsEnabled pw
             then Inr ((updateSimpleMovement deltaTime p)\<lparr> lastUpdate := now \<rparr>, st)
             else
               (let pos = position (st b);
                    vel = velocity (st b);
                    p = p\<lparr> positionP := Vec3 (vec_x pos) (vec_y pos) (vec_z pos),
                           velocityP := Vec3 (vec_x vel) (vec_y vel) (vec_z vel) \<rparr>
                in case checkGroundContact E pw (p, st) of
                     Inl e \<Rightarrow> Inl e
                   | Inr ps1 \<Rightarrow>
                       (case applyFloatiness pw b (applyMovementForces deltaTime ps1) of
                          (p, st) \<Rightarrow>
                            let av = angularVelocity (st b);
                                av = av\<lparr> vec_x := 0 \<rparr>;
                                av = av\<lparr> vec_z := 0 \<rparr>;
                                st = st(b := (st b)\<lparr> angularVelocity := av \<rparr>)
                            in (case applyBoundaryConstraints (p, st) of
                                  (p, st) \<Rightarrow> Inr (p\<lparr> lastUpdate := now \<rparr>, st))))))"

text \<open>\<^verbatim>\<open>getState\<close>: both vectors are always assigned, so the defaults never apply.\<close>

record playerState =
  state_id :: string
  state_position :: vec3
  state_velocity :: vec3
  state_color :: string
  state_onGround :: bool

definition getState :: "player \<Rightarrow> playerState" where
  "getState p =
     \<lparr> state_id = id_player p, state_position = positionP p, state_velocity = velocityP p,
       state_color = color p, state_onGround = onGround p \<rparr>"

text \<open>\<^verbatim>\<open>destroy\<close>: the Player keeps its reference to the body.\<close>

definition destroy :: "player \<Rightarrow> physicsWorld \<Rightarrow> physicsWorld" where
  "destroy p pw = (case body p of None \<Rightarrow> pw | Some b \<Rightarrow> removeBody b pw)"

section \<open>Simulation loop (server/src/game/GameManager.js)\<close>

text \<open>
  The registry \<^verbatim>\<open>players\<close> is a JavaScript \<^verbatim>\<open>Map\<close>: an association list in
  insertion order whose keys are distinct, so that its \<^verbatim>\<open>size\<close> is the length of
  the list. The state of the server gathers the manager's fields, the store of bodies
  and the messages handed to \<^verbatim>\<open>io.emit\<close>.
\<close>

record gameState =
  state_players :: "playerState list"
  timestamp :: int
  physics_enabled :: bool
  physics_debugData :: "bodyData list"

record gameManager =
  physicsWorld :: physicsWorld
  players :: "(string \<times> player) list"
  lastTick :: int
  heap :: store
  emitted :: "(string \<times> gameState) list"

definition map_get :: "(string \<times> 'v) list \<Rightarrow> string \<Rightarrow> 'v option" where
  "map_get m k = map_of m k"

fun map_set :: "string \<Rightarrow> 'v \<Rightarrow> (string \<times> 'v) list \<Rightarrow> (string \<times> 'v) list" where
  "map_set k v [] = [(k, v)]"
| "map_set k v ((k', v') # m) = (if k' = k then (k, v) # m else (k', v') # map_set k v m)"

definition map_delete :: "string \<Rightarrow> (string \<times> 'v) list \<Rightarrow> (string \<times> 'v) list" where
  "map_delete k m = filter (\<lambda>kv. fst kv \<noteq> k) m"

definition map_size :: "(string \<times> 'v) list \<Rightarrow> nat" where
  "map_size m = length m"

text \<open>
  \<^verbatim>\<open>updateAllPlayers\<close>: the loop over \<^verbatim>\<open>players.values()\<close>; \<open>clock k\<close> is the
  reading of the clock inside the update of the Player registered under \<open>k\<close>. An
  exception leaves the loop.
\<close>

fun updateAllPlayers ::
  "engine \<Rightarrow> physicsWorld \<Rightarrow> (string \<Rightarrow> int) \<Rightarrow> real \<Rightarrow> (string \<times> player) list \<Rightarrow> store
     \<Rightarrow> error + (string \<times> player) list \<times> store" where
  "updateAllPlayers E pw clock deltaTime [] st = Inr ([], st)"
| "updateAllPlayers E pw clock deltaTime ((k, p) # ps) st =
     (case update E pw (clock k) (JNum deltaTime) (p, st) of
        Inl e \<Rightarrow> Inl e
      | Inr (p', st') \<Rightarrow>
          (case updateAllPlayers E pw clock deltaTime ps st' of
             Inl e \<Rightarrow> Inl e
           | Inr (ps', st'') \<Rightarrow> Inr ((k, p') # ps', st'')))"

definition buildGameState :: "int \<Rightarrow> gameManager \<Rightarrow> gameState" where
  "buildGameState t g =
     \<lparr> state_players = map (\<lambda>kv. getState (snd kv)) (players g),
       timestamp = t,
       physics_enabled = isPhysicsEnabled (physicsWorld g),
       physics_debugData = getDebugData (physicsWorld g) (heap g) \<rparr>"

definition broadcastGameState :: "int \<Rightarrow> gameManager \<Rightarrow> gameManager" where
  "broadcastGameState t g =
     (if map_size (players g) > 0
      then g\<lparr> emitted := emitted g @ [(''gameUpdate'', buildGameState t g)] \<rparr>
      else g)"

text \<open>\<^verbatim>\<open>gameLoop\<close>: one tick; \<open>now\<close> is its reading of the clock.\<close>

definition gameLoop ::
  "engine \<Rightarrow> (string \<Rightarrow> int) \<Rightarrow> int \<Rightarrow> gameManager \<Rightarrow> error + gameManager" where
  "gameLoop E clock now g =
     (let deltaTime = real_of_int (now - lastTick g) / 1000;
          g = g\<lparr> lastTick := now \<rparr>;
          g = g\<lparr> heap := step E (1 / 60) (physicsWorld g) (heap g) \<rparr>
      in case updateAllPlayers E (physicsWorld g) clock deltaTime (players g) (heap g) of
           Inl e \<Rightarrow> Inl e
         | Inr (ps, st) \<Rightarrow> Inr (broadcastGameState now (g\<lparr> players := ps, heap := st \<rparr>)))"

text \<open>
  \<^verbatim>\<open>addPlayer\<close>: \<open>r1\<close>, \<open>r2\<close> and \<open>r3\<close> are the three readings of
  \<^verbatim>\<open>Math.random()\<close> (two for the spawn offset, one for the colour), \<open>b\<close> the
  reference of the body the constructor may allocate.
\<close>

definition addPlayer ::
  "string \<Rightarrow> real \<Rightarrow> real \<Rightarrow> real \<Rightarrow> int \<Rightarrow> nat \<Rightarrow> real \<Rightarrow> real \<Rightarrow> real \<Rightarrow> gameManager
     \<Rightarrow> gameManager" where
  "addPlayer playerId r1 r2 r3 now b x y z g =
     (let spawnX = x + (r1 * 10 - 5);
          spawnZ = z + (r2 * 10 - 5)
      in case newPlayer playerId r3 now b spawnX y spawnZ (physicsWorld g, heap g) of
           (p, pw, st) \<Rightarrow>
             g\<lparr> physicsWorld := pw, heap := st, players := map_set playerId p (players g) \<rparr>)"

text \<open>\<^verbatim>\<open>removePlayer\<close>.\<close>

definition removePlayer :: "string \<Rightarrow> gameManager \<Rightarrow> gameManager" where
  "removePlayer playerId g =
     (case map_get (players g) playerId of
        None \<Rightarrow> g
      | Some p \<Rightarrow>
          g\<lparr> physicsWorld := destroy p (physicsWorld g),
             players := map_delete playerId (players g) \<rparr>)"

section \<open>Concrete states on which the model is evaluated\<close>

text \<open>
  A concrete solver on which the model is evaluated. The registry lists the Players'
  bodies, each carrying the box of \<^verbatim>\<open>createPhysicsBody\<close> (half extents
  \<open>(0.4, 0.9, 0.4)\<close>); the static ground collider is the plane at height \<open>-0.5\<close>
  of \<^verbatim>\<open>createGround\<close>. The ray cast handles the vertical downward rays that
  \<^verbatim>\<open>checkGroundContact\<close> casts: it reports the closest crossing of the ray with a
  face of a registered box or with the ground plane. A ray that starts at the centre of
  a registered body thus leaves that body's own box through its lower face, at distance
  0.9. The step integrates a registered body in free flight: gravity and the
  accumulated force change the velocity, the new velocity changes the position, and
  the force is cleared; contacts and damping are left out.
\<close>

definition boxFaces :: "vec3 \<Rightarrow> vec3 \<Rightarrow> real list" where
  "boxFaces start c =
     (if \<bar>vec_x start - vec_x c\<bar> \<le> 0.4 \<and> \<bar>vec_z start - vec_z c\<bar> \<le> 0.4
      then [vec_y c + 0.9, vec_y c - 0.9] else [])"

definition rayHits :: "cannonWorld \<Rightarrow> store \<Rightarrow> vec3 \<Rightarrow> vec3 \<Rightarrow> real list" where
  "rayHits w st start end' =
     filter (\<lambda>d. 0 \<le> d \<and> d \<le> vec_y start - vec_y end')
       (map (\<lambda>h. vec_y start - h)
          (concat (map (\<lambda>b. boxFaces start (position (st b))) (bodies w)) @ [- 0.5]))"

definition closestHit :: "real list \<Rightarrow> raycastResult" where
  "closestHit ds =
     (case ds of
        [] \<Rightarrow> \<lparr> hasHit = False, distance = - 1 \<rparr>
      | d # ds' \<Rightarrow> \<lparr> hasHit = True, distance = fold min ds' d \<rparr>)"

definition freeFlight :: "real \<Rightarrow> vec3 \<Rightarrow> body \<Rightarrow> body" where
  "freeFlight dt g bd =
     (let v = velocity bd;
          f = force bd;
          v = Vec3 (vec_x v + (vec_x g + vec_x f / mass bd) * dt)
                   (vec_y v + (vec_y g + vec_y f / mass bd) * dt)
                   (vec_z v + (vec_z g + vec_z f / mass bd) * dt);
          q = position bd
      in bd\<lparr> velocity := v,
              position := Vec3 (vec_x q + vec_x v * dt) (vec_y q + vec_y v * dt)
                               (vec_z q + vec_z v * dt),
              force := Vec3 0 0 0 \<rparr>)"

definition boxEngine :: engine where
  "boxEngine =
     \<lparr> raycastClosest = (\<lambda>w st start end'. closestHit (rayHits w st start end')),
       worldStep = (\<lambda>dt w st b.
          if b \<in> set (bodies w) then freeFlight dt (gravity w) (st b) else st b) \<rparr>"

definition restBody :: "vec3 \<Rightarrow> body" where
  "restBody q = \<lparr> position = q, velocity = Vec3 0 0 0, angularVelocity = Vec3 0 0 0,
                  mass = 1, force = Vec3 0 0 0 \<rparr>"

definition store0 :: store where
  "store0 = (\<lambda>b. restBody (Vec3 0 0 0))"

definition pwOff :: physicsWorld where
  "pwOff = newPhysicsWorld"

definition pwOn :: physicsWorld where
  "pwOn = \<lparr> world = Some \<lparr> gravity = Vec3 0 (- 9.82) 0, bodies = [1] \<rparr>, isEnabled = True \<rparr>"

definition noInput :: inputState where
  "noInput = \<lparr> left = False, right = False, forward = False, backward = False, jump = False \<rparr>"

text \<open>A Player in fallback mode at position \<open>q\<close>, and one owning the body \<open>1\<close>.\<close>

definition fallbackPlayer :: "vec3 \<Rightarrow> inputState \<Rightarrow> player" where
  "fallbackPlayer q i =
     \<lparr> id_player = ''a'', color = ''#ff6b6b'', lastUpdate = 0, onGround = False, input = i,
       positionP = q, velocityP = Vec3 0 0 0, body = None \<rparr>"

definition physicsPlayer :: "bool \<Rightarrow> inputState \<Rightarrow> player" where
  "physicsPlayer g i =
     \<lparr> id_player = ''a'', color = ''#ff6b6b'', lastUpdate = 0, onGround = g, input = i,
       positionP = Vec3 0 0 0, velocityP = Vec3 0 0 0, body = Some 1 \<rparr>"

text \<open>
  Two consecutive ticks of a physics-backed Player that stands on the ground (its
  centre at height 0.4) with \<open>jump\<close> held: the update of the first tick, the solver
  step of the second tick, and the update of the second tick.
\<close>

definition jumpHeld :: inputState where
  "jumpHeld = noInput\<lparr> jump := True \<rparr>"

definition standingStore :: store where
  "standingStore = store0(1 := restBody (Vec3 0 0.4 0))"

definition heldJumpTick1 :: "error + player \<times> store" where
  "heldJumpTick1 =
     update boxEngine pwOn 16 (JNum (1 / 60)) (physicsPlayer False jumpHeld, standingStore)"

definition heldJumpStep :: store where
  "heldJumpStep = step boxEngine (1 / 60) pwOn (snd (projr heldJumpTick1))"

definition heldJumpTick2 :: "error + player \<times> store" where
  "heldJumpTick2 =
     update boxEngine pwOn 33 (JNum (1 / 60)) (fst (projr heldJumpTick1), heldJumpStep)"

text \<open>
  A manager in fallback mode with one registered Player, and one with physics enabled
  whose only Player owns the body \<open>1\<close>, registered in the solver's world.
\<close>

definition managerOne :: gameManager where
  "managerOne =
     \<lparr> physicsWorld = pwOff,
       players = [(''a'', fallbackPlayer (Vec3 0 0 0) noInput)],
       lastTick = 0, heap = store0, emitted = [] \<rparr>"

definition managerPhysics :: gameManager where
  "managerPhysics =
     \<lparr> physicsWorld = \<lparr> world = Some \<lparr> gravity = Vec3 0 (- 9.82) 0, bodies = [1] \<rparr>,
                        isEnabled = True \<rparr>,
       players = [(''a'', physicsPlayer False noInput)],
       lastTick = 0, heap = store0(1 := restBody (Vec3 0 2 0)), emitted = [] \<rparr>"

section \<open>Input validation\<close>

lemma validateKeys_lookup:
  "validateKeys ks d acc k =
     (if k \<in> set ks \<and> has_key k d then Some (Boolean (get_prop k d)) else acc k)"
  by (induction ks arbitrary: acc) auto

lemma rejected_iff:
  "(\<not> Boolean d \<or> typeof d \<noteq> ''object'') =
   (d = JUndefined \<or> d = JNull \<or> typeof d \<noteq> ''object'')"
  by (cases d) auto

text \<open>
  Claim C7. \<^verbatim>\<open>validateInput\<close> returns \<^verbatim>\<open>null\<close> exactly when the raw input is
  missing (\<^verbatim>\<open>undefined\<close> or \<^verbatim>\<open>null\<close>) or not of object type. Otherwise the
  returned record has, under every key, the boolean coercion of the raw value when the
  key is one of the five recognised keys and present in the raw input, and no entry
  at all under any other key.
\<close>

theorem validateInput_spec:
  "(validateInput d = None \<longleftrightarrow> d = JUndefined \<or> d = JNull \<or> typeof d \<noteq> ''object'') \<and>
   (\<forall>v. validateInput d = Some v \<longrightarrow>
      (\<forall>k. v k = (if k \<in> set validInputs \<and> has_key k d
                  then Some (Boolean (get_prop k d)) else None)))"
  unfolding validateInput_def rejected_iff
  by (auto simp: validateKeys_lookup)

theorem validateInput_spec_witness:
  "\<exists>v. validateInput (JObj [(''left'', JNum 1), (''fly'', JBool True), (''jump'', JStr [])]) = Some v \<and>
       v ''left'' = Some True \<and> v ''jump'' = Some False \<and> v ''fly'' = None \<and> v ''right'' = None"
proof -
  let ?d = "JObj [(''left'', JNum 1), (''fly'', JBool True), (''jump'', JStr [])]"
  note T = validateInput_spec [of ?d]
  have "validateInput ?d \<noteq> None"
    using T by simp
  then obtain v where v: "validateInput ?d = Some v"
    by blast
  with T have K: "\<And>k. v k = (if k \<in> set validInputs \<and> has_key k ?d
                  then Some (Boolean (get_prop k ?d)) else None)"
    by blast
  have "v ''left'' = Some True \<and> v ''jump'' = Some False \<and> v ''fly'' = None \<and> v ''right'' = None"
    using K [of "''left''"] K [of "''jump''"] K [of "''fly''"] K [of "''right''"]
    by (simp add: validInputs_def)
  with v show ?thesis by blast
qed

section \<open>Processing and rate limiting of inputs\<close>

lemma validateInput_jump:
  "validateInput (JObj [(''jump'', JBool True)]) = Some [''jump'' \<mapsto> True]"
  by (simp add: validateInput_def validInputs_def)


lemma lastTimeOf_990: "lastTimeOf \<lparr> lastInputTime = [''a'' \<mapsto> 990] \<rparr> ''a'' = 990"
  by (simp add: lastTimeOf_def)



text \<open>
  Claim C6. \<^verbatim>\<open>processInput\<close> returns true exactly when the input validates and the
  rate limit lets it through. When it returns false, the handler's bookkeeping and the
  Player are those it was given; when it returns true, the Player is the result of
  \<^verbatim>\<open>updateInput\<close> on the validated record.
\<close>

theorem processInput_verdict:
  "processInput now pid raw (h, p) = (r, h', p') \<Longrightarrow>
     (r \<longleftrightarrow> validateInput raw \<noteq> None \<and> now - lastTimeOf h pid \<ge> INPUT_RATE_LIMIT) \<and>
     (\<not> r \<longrightarrow> h' = h \<and> p' = p) \<and>
     (r \<longrightarrow> (\<exists>v. validateInput raw = Some v \<and> p' = updateInput v p))"
  by (auto simp: processInput_def shouldProcessInput_def Let_def split: option.splits if_splits)

theorem processInput_verdict_witness:
  "processInput 1000 ''a'' (JObj [(''jump'', JBool True)])
       (\<lparr> lastInputTime = [''a'' \<mapsto> 990] \<rparr>, fallbackPlayer (Vec3 0 0 0) noInput)
     = (False, \<lparr> lastInputTime = [''a'' \<mapsto> 990] \<rparr>, fallbackPlayer (Vec3 0 0 0) noInput) \<and>
   validateInput (JObj [(''jump'', JBool True)]) \<noteq> None \<and>
   \<not> 1000 - lastTimeOf \<lparr> lastInputTime = [''a'' \<mapsto> 990] \<rparr> ''a'' \<ge> INPUT_RATE_LIMIT"
proof -
  let ?h = "\<lparr> lastInputTime = [''a'' \<mapsto> 990] \<rparr>"
  let ?p = "fallbackPlayer (Vec3 0 0 0) noInput"
  have run: "processInput 1000 ''a'' (JObj [(''jump'', JBool True)]) (?h, ?p) = (False, ?h, ?p)"
    by (simp add: processInput_def validateInput_jump shouldProcessInput_def lastTimeOf_990
          INPUT_RATE_LIMIT_def)
  from processInput_verdict [OF run] run show ?thesis
    by (simp add: validateInput_jump lastTimeOf_990 INPUT_RATE_LIMIT_def)
qed



section \<open>The target velocity is bounded by the top speed\<close>

lemma hypot_scale: "hypot (a * c) (b * c) = \<bar>c\<bar> * hypot a b"
proof -
  have "(a * c) * (a * c) + (b * c) * (b * c) = c\<^sup>2 * (a * a + b * b)"
    by (simp add: power2_eq_square algebra_simps)
  then show ?thesis
    by (simp add: hypot_def real_sqrt_mult)
qed

lemma hypot_normalized:
  assumes "0 < S" and "S < hypot a b"
  shows "hypot ((a / hypot a b) * S) ((b / hypot a b) * S) = S"
proof -
  let ?h = "hypot a b"
  have h: "0 < ?h" using assms by linarith
  have "hypot ((a / ?h) * S) ((b / ?h) * S) = hypot (a * (S / ?h)) (b * (S / ?h))"
    by (simp add: field_simps)
  also have "\<dots> = \<bar>S / ?h\<bar> * ?h"
    by (rule hypot_scale)
  also have "\<dots> = S"
    using h assms by simp
  finally show ?thesis .
qed

lemma normalize_bounded:
  assumes "0 < S"
  shows "hypot (fst (if S < hypot a b then ((a / hypot a b) * S, (b / hypot a b) * S) else (a, b)))
               (snd (if S < hypot a b then ((a / hypot a b) * S, (b / hypot a b) * S) else (a, b)))
         \<le> S"
proof (cases "S < hypot a b")
  case True
  then show ?thesis
    using hypot_normalized [OF assms True] by simp
next
  case False
  then show ?thesis by simp
qed

lemma SPEED_pos: "0 < SPEED"
  by (simp add: SPEED_def xxxx_def)

lemma targetVelocity_forward_left:
  "targetVelocity \<lparr> left = True, right = False, forward = True, backward = False, jump = False \<rparr>
     = (- SPEED / sqrt 2, - SPEED / sqrt 2)"
proof -
  have h: "hypot (- SPEED) (- SPEED) = SPEED * sqrt 2"
    using SPEED_pos by (simp add: hypot_def real_sqrt_mult flip: mult_2)
  have gt: "SPEED < SPEED * sqrt 2"
    using SPEED_pos by simp
  show ?thesis
    using SPEED_pos gt by (simp add: targetVelocity_def Let_def h)
qed

text \<open>
  Claim C3. Whatever the four directional booleans are, the target horizontal velocity
  that both movement modes compute has magnitude at most the single-axis top speed
  \<open>SPEED\<close> (over the reals). With \<open>forward\<close> and \<open>left\<close> held the magnitude is
  \<open>SPEED\<close>, each component being \<open>SPEED / sqrt 2\<close> in absolute value.
\<close>

theorem targetVelocity_bounded:
  "hypot (fst (targetVelocity i)) (snd (targetVelocity i)) \<le> SPEED"
  unfolding targetVelocity_def Let_def
  by (rule normalize_bounded [OF SPEED_pos])

theorem targetVelocity_bounded_witness:
  "hypot (- SPEED / sqrt 2) (- SPEED / sqrt 2) \<le> SPEED"
  using targetVelocity_bounded
    [of "\<lparr> left = True, right = False, forward = True, backward = False, jump = False \<rparr>"]
  by (simp add: targetVelocity_forward_left)

section \<open>One tick of a Participant\<close>

subsection \<open>Selectors of the concrete states\<close>

lemma fallbackPlayer_sel:
  "body (fallbackPlayer q i) = None" "input (fallbackPlayer q i) = i"
  "positionP (fallbackPlayer q i) = q" "velocityP (fallbackPlayer q i) = Vec3 0 0 0"
  by (simp_all add: fallbackPlayer_def)

lemma physicsPlayer_sel:
  "body (physicsPlayer g i) = Some 1" "input (physicsPlayer g i) = i"
  "onGround (physicsPlayer g i) = g"
  by (simp_all add: physicsPlayer_def)

lemma pwOn_sel:
  "isPhysicsEnabled pwOn"
  "getWorld pwOn = Some \<lparr> gravity = Vec3 0 (- 9.82) 0, bodies = [1] \<rparr>"
  by (simp_all add: pwOn_def isPhysicsEnabled_def getWorld_def)

lemma pwOff_sel: "\<not> isPhysicsEnabled pwOff" "getWorld pwOff = None"
  by (simp_all add: pwOff_def newPhysicsWorld_def isPhysicsEnabled_def getWorld_def)

lemma restBody_sel:
  "position (restBody q) = q" "velocity (restBody q) = Vec3 0 0 0"
  by (simp_all add: restBody_def)

lemma Vec3_sel: "vec_x (Vec3 a b c) = a" "vec_y (Vec3 a b c) = b" "vec_z (Vec3 a b c) = c"
  by (simp_all add: Vec3_def)

subsection \<open>The steps of the physics-backed update\<close>

lemma clampHorizontal_y: "vec_y (clampHorizontal l v) = vec_y v"
  by (simp add: clampHorizontal_def Let_def)

lemma movement_ground:
  assumes "body p = Some b" and "onGround p" and "targetVelocity (input p) = (tx, tz)"
      and "l = min 1 (ACCELERATION * d)"
      and "v = clampHorizontal MAX_HORIZONTAL_SPEED
                 ((velocity (st b))\<lparr> vec_x := vec_x (velocity (st b)) + (tx - vec_x (velocity (st b))) * l,
                                     vec_z := vec_z (velocity (st b)) + (tz - vec_z (velocity (st b))) * l \<rparr>)"
  shows "applyMovementForces d (p, st) =
           (if jump (input p)
            then (p\<lparr> onGround := False \<rparr>, st(b := (st b)\<lparr> velocity := v\<lparr> vec_y := JUMP_FORCE \<rparr> \<rparr>))
            else (p, st(b := (st b)\<lparr> velocity := v \<rparr>)))"
  unfolding applyMovementForces_def Let_def prod.case assms(1) option.case assms(3) assms(4,5)
  using assms(2) by simp

lemma movement_air:
  assumes "body p = Some b" and "\<not> onGround p" and "targetVelocity (input p) = (tx, tz)"
  shows "applyMovementForces d (p, st) =
           (p, st(b := (applyForce (Vec3 ((tx - vec_x (velocity (st b))) * AIR_ACCELERATION * mass (st b)) 0
                                        ((tz - vec_z (velocity (st b))) * AIR_ACCELERATION * mass (st b)))
                          (st b))
                       \<lparr> velocity := clampHorizontal (MAX_HORIZONTAL_SPEED * 1.4) (velocity (st b)) \<rparr>))"
  unfolding applyMovementForces_def Let_def prod.case assms(1) option.case assms(3)
  using assms(2) by simp

lemma movement_effect:
  assumes b: "body p = Some b" and run: "applyMovementForces d (p, st) = (p', st')"
  shows "p' = p\<lparr> onGround := (onGround p \<and> \<not> jump (input p)) \<rparr> \<and>
         vec_y (velocity (st' b))
           = (if jump (input p) \<and> onGround p then JUMP_FORCE else vec_y (velocity (st b))) \<and>
         position (st' b) = position (st b) \<and>
         angularVelocity (st' b) = angularVelocity (st b)"
proof -
  obtain tx tz where t: "targetVelocity (input p) = (tx, tz)"
    by fastforce
  show ?thesis
  proof (cases "onGround p")
    case True
    from run show ?thesis
      unfolding movement_ground [OF b True t refl refl]
      using True by (auto simp: clampHorizontal_y split: if_splits)
  next
    case False
    from run show ?thesis
      unfolding movement_air [OF b False t]
      using False by (auto simp: clampHorizontal_y applyForce_def)
  qed
qed

lemma floatiness_frame:
  assumes "applyFloatiness pw b (p, st) = (p', st')"
  shows "p' = p \<and> position (st' b) = position (st b) \<and> velocity (st' b) = velocity (st b) \<and>
         angularVelocity (st' b) = angularVelocity (st b)"
  using assms
  by (auto simp: applyFloatiness_def Let_def applyForce_def split: option.splits if_splits)

lemma ground_frame:
  assumes "body p = Some b" and "getWorld pw = Some w"
  shows "checkGroundContact E pw (p, st) = Inr (p\<lparr> onGround := groundProbe E w st b \<rparr>, st)"
  using assms by (simp add: checkGroundContact_def)

lemma boundary_reset:
  assumes "body p = Some b"
      and "\<bar>vec_x (position (st b))\<bar> > boundary \<or> \<bar>vec_z (position (st b))\<bar> > boundary
           \<or> vec_y (position (st b)) < - 10"
  shows "applyBoundaryConstraints (p, st)
           = (p, st(b := (st b)\<lparr> position := Vec3 0 5 0, velocity := Vec3 0 0 0,
                                  angularVelocity := Vec3 0 0 0 \<rparr>))"
  using assms by (auto simp: applyBoundaryConstraints_def Let_def)

lemma update_physics_reset:
  assumes b: "body p = Some b" and en: "isPhysicsEnabled pw" and w: "getWorld pw = Some w"
      and out: "\<bar>vec_x (position (st b))\<bar> > boundary \<or> \<bar>vec_z (position (st b))\<bar> > boundary
           \<or> vec_y (position (st b)) < - 10"
  shows "\<exists>p' st'. update E pw now dt (p, st) = Inr (p', st') \<and>
           position (st' b) = Vec3 0 5 0 \<and> velocity (st' b) = Vec3 0 0 0 \<and>
           angularVelocity (st' b) = Vec3 0 0 0"
proof -
  let ?p0 = "p\<lparr> positionP := Vec3 (vec_x (position (st b))) (vec_y (position (st b))) (vec_z (position (st b))),
                velocityP := Vec3 (vec_x (velocity (st b))) (vec_y (velocity (st b))) (vec_z (velocity (st b))) \<rparr>"
  have b0: "body ?p0 = Some b" using b by simp
  define g where "g = groundProbe E w st b"
  have g: "checkGroundContact E pw (?p0, st) = Inr (?p0\<lparr> onGround := g \<rparr>, st)"
    unfolding g_def by (rule ground_frame [OF b0 w])
  obtain p1 st1 where m: "applyMovementForces (normalizeDelta now dt p) (?p0\<lparr> onGround := g \<rparr>, st) = (p1, st1)"
    by fastforce
  have b1: "body (?p0\<lparr> onGround := g \<rparr>) = Some b" using b by simp
  note F1 = movement_effect [OF b1 m]
  obtain p2 st2 where f: "applyFloatiness pw b (p1, st1) = (p2, st2)"
    by fastforce
  note F2 = floatiness_frame [OF f]
  let ?st3 = "st2(b := (st2 b)\<lparr> angularVelocity := (angularVelocity (st2 b))\<lparr> vec_x := 0, vec_z := 0 \<rparr> \<rparr>)"
  have b2: "body p2 = Some b" using F1 F2 b by simp
  have out3: "\<bar>vec_x (position (?st3 b))\<bar> > boundary \<or> \<bar>vec_z (position (?st3 b))\<bar> > boundary
           \<or> vec_y (position (?st3 b)) < - 10"
    using out F1 F2 by simp
  note R = boundary_reset [of p2 b ?st3, OF b2 out3]
  have "update E pw now dt (p, st)
          = Inr (p2\<lparr> lastUpdate := now \<rparr>,
                 ?st3(b := (?st3 b)\<lparr> position := Vec3 0 5 0, velocity := Vec3 0 0 0,
                                  angularVelocity := Vec3 0 0 0 \<rparr>))"
    using b en by (simp add: update_def Let_def g m f R)
  then show ?thesis by simp
qed

lemma boundary_effect:
  assumes "body p = Some b" and "applyBoundaryConstraints (p, st) = (p', st')"
  shows "p' = p \<and>
         (\<not> (\<bar>vec_x (position (st b))\<bar> > boundary \<or> \<bar>vec_z (position (st b))\<bar> > boundary
              \<or> vec_y (position (st b)) < - 10) \<longrightarrow> st' = st)"
  using assms by (auto simp: applyBoundaryConstraints_def Let_def split: if_splits)

lemma update_physics:
  assumes b: "body p = Some b" and en: "isPhysicsEnabled pw" and w: "getWorld pw = Some w"
  shows "\<exists>p' st'. update E pw now dt (p, st) = Inr (p', st') \<and>
           onGround p' = (groundProbe E w st b \<and> \<not> jump (input p)) \<and>
           input p' = input p \<and> body p' = body p \<and>
           (\<not> (\<bar>vec_x (position (st b))\<bar> > boundary \<or> \<bar>vec_z (position (st b))\<bar> > boundary
                \<or> vec_y (position (st b)) < - 10) \<longrightarrow>
              vec_y (velocity (st' b))
                = (if jump (input p) \<and> groundProbe E w st b then JUMP_FORCE
                   else vec_y (velocity (st b))))"
proof -
  let ?p0 = "p\<lparr> positionP := Vec3 (vec_x (position (st b))) (vec_y (position (st b))) (vec_z (position (st b))),
                velocityP := Vec3 (vec_x (velocity (st b))) (vec_y (velocity (st b))) (vec_z (velocity (st b))) \<rparr>"
  define g where "g = groundProbe E w st b"
  have b0: "body ?p0 = Some b" using b by simp
  have g: "checkGroundContact E pw (?p0, st) = Inr (?p0\<lparr> onGround := g \<rparr>, st)"
    unfolding g_def by (rule ground_frame [OF b0 w])
  obtain p1 st1 where m: "applyMovementForces (normalizeDelta now dt p) (?p0\<lparr> onGround := g \<rparr>, st) = (p1, st1)"
    by fastforce
  have b1: "body (?p0\<lparr> onGround := g \<rparr>) = Some b" using b by simp
  note M = movement_effect [OF b1 m]
  obtain p2 st2 where f: "applyFloatiness pw b (p1, st1) = (p2, st2)"
    by fastforce
  note F = floatiness_frame [OF f]
  let ?st3 = "st2(b := (st2 b)\<lparr> angularVelocity := (angularVelocity (st2 b))\<lparr> vec_x := 0, vec_z := 0 \<rparr> \<rparr>)"
  obtain p4 st4 where c: "applyBoundaryConstraints (p2, ?st3) = (p4, st4)"
    by fastforce
  have b2: "body p2 = Some b" using M F b by simp
  note B = boundary_effect [of p2 b ?st3, OF b2 c]
  have pos3: "position (?st3 b) = position (st b)" "velocity (?st3 b) = velocity (st1 b)"
    using M F by simp_all
  have "update E pw now dt (p, st) = Inr (p4\<lparr> lastUpdate := now \<rparr>, st4)"
    using b en by (simp add: update_def Let_def g m f c)
  moreover have "onGround (p4\<lparr> lastUpdate := now \<rparr>) = (g \<and> \<not> jump (input p))"
    using M F B by simp
  moreover have "input (p4\<lparr> lastUpdate := now \<rparr>) = input p" "body (p4\<lparr> lastUpdate := now \<rparr>) = body p"
    using M F B by simp_all
  moreover have "vec_y (velocity (st4 b)) = (if jump (input p) \<and> g then JUMP_FORCE else vec_y (velocity (st b)))"
    if "\<not> (\<bar>vec_x (position (st b))\<bar> > boundary \<or> \<bar>vec_z (position (st b))\<bar> > boundary
                \<or> vec_y (position (st b)) < - 10)"
  proof -
    from that B pos3 have "st4 = ?st3" by simp
    then show ?thesis using M pos3 by auto
  qed
  ultimately show ?thesis
    unfolding g_def by blast
qed

subsection \<open>The kinematic fallback\<close>

lemma update_fallback:
  assumes "body p = None \<or> \<not> isPhysicsEnabled pw"
  shows "update E pw now dt (p, st)
           = Inr ((updateSimpleMovement (normalizeDelta now dt p) p)\<lparr> lastUpdate := now \<rparr>, st)"
  using assms by (auto simp: update_def Let_def split: option.splits)

lemma updateSimpleMovement_unfold:
  assumes "targetVelocity (input p) = (tx, tz)"
      and "d = (if d0 > 0.1 then d0 / 1000 else d0)"
      and "l = min 1 (VELOCITY_LERP * d)"
      and "vx = vec_x (velocityP p) + (tx - vec_x (velocityP p)) * l"
      and "vz = vec_z (velocityP p) + (tz - vec_z (velocityP p)) * l"
  shows "updateSimpleMovement d0 p =
           p\<lparr> velocityP := (velocityP p)\<lparr> vec_x := vx, vec_z := vz \<rparr>,
              positionP := (positionP p)\<lparr>
                 vec_x := max (- 50) (min 50 (vec_x (positionP p) + vx * d)),
                 vec_z := max (- 50) (min 50 (vec_z (positionP p) + vz * d)),
                 vec_y := max 0 (vec_y (positionP p)) \<rparr> \<rparr>"
  unfolding updateSimpleMovement_def Let_def assms(1) prod.case assms(2-5)
  by simp

lemma updateSimpleMovement_position:
  "positionP (updateSimpleMovement d0 p) =
     (let d = (if d0 > 0.1 then d0 / 1000 else d0);
          v = velocityP (updateSimpleMovement d0 p);
          q = positionP p
      in q\<lparr> vec_x := max (- 50) (min 50 (vec_x q + vec_x v * d)),
             vec_z := max (- 50) (min 50 (vec_z q + vec_z v * d)),
             vec_y := max 0 (vec_y q) \<rparr>)"
proof -
  obtain tx tz where t: "targetVelocity (input p) = (tx, tz)"
    by fastforce
  show ?thesis
    unfolding Let_def updateSimpleMovement_unfold [OF t refl refl refl refl]
    by simp
qed

lemma targetVelocity_noInput: "targetVelocity noInput = (0, 0)"
  by (simp add: targetVelocity_def noInput_def hypot_def SPEED_def xxxx_def)

lemma normalizeDelta_small: "d \<le> 0.1 \<Longrightarrow> normalizeDelta now (JNum d) p = d"
  by (simp add: normalizeDelta_def)

lemma normalizeDelta_ms: "d > 0.1 \<Longrightarrow> normalizeDelta now (JNum d) p = d / 1000"
  by (simp add: normalizeDelta_def)

lemma updateSimpleMovement_rest:
  assumes "d \<le> 0.1"
  shows "updateSimpleMovement d (fallbackPlayer (Vec3 a b c) noInput)
     = fallbackPlayer (Vec3 (max (- 50) (min 50 a)) (max 0 b) (max (- 50) (min 50 c))) noInput"
proof -
  have t: "targetVelocity (input (fallbackPlayer (Vec3 a b c) noInput)) = (0, 0)"
    by (simp add: fallbackPlayer_sel targetVelocity_noInput)
  show ?thesis
    unfolding updateSimpleMovement_unfold [OF t refl refl refl refl]
    using assms by (simp add: fallbackPlayer_def Vec3_def)
qed

lemma update_fallback_rest:
  assumes "d \<le> 0.1"
  shows "update E pwOff now (JNum d) (fallbackPlayer (Vec3 a b c) noInput, st)
     = Inr ((fallbackPlayer (Vec3 (max (- 50) (min 50 a)) (max 0 b) (max (- 50) (min 50 c))) noInput)
              \<lparr> lastUpdate := now \<rparr>, st)"
proof -
  have "body (fallbackPlayer (Vec3 a b c) noInput) = None \<or> \<not> isPhysicsEnabled pwOff"
    by (simp add: fallbackPlayer_sel)
  from update_fallback [OF this] show ?thesis
    by (simp add: normalizeDelta_small [OF assms] updateSimpleMovement_rest [OF assms])
qed

lemma targetVelocity_jump: "targetVelocity (i\<lparr> jump := j \<rparr>) = targetVelocity i"
  by (simp add: targetVelocity_def)

lemma updateSimpleMovement_jump:
  "updateSimpleMovement d (p\<lparr> input := (input p)\<lparr> jump := j \<rparr> \<rparr>)
     = (updateSimpleMovement d p)\<lparr> input := (input p)\<lparr> jump := j \<rparr> \<rparr>"
proof -
  obtain tx tz where t: "targetVelocity (input p) = (tx, tz)"
    by fastforce
  then have tj: "targetVelocity (input (p\<lparr> input := (input p)\<lparr> jump := j \<rparr> \<rparr>)) = (tx, tz)"
    by (simp add: targetVelocity_jump)
  show ?thesis
    unfolding updateSimpleMovement_unfold [OF t refl refl refl refl]
      updateSimpleMovement_unfold [OF tj refl refl refl refl]
    by simp
qed

lemma updateSimpleMovement_vertical:
  "vec_y (velocityP (updateSimpleMovement d p)) = vec_y (velocityP p) \<and>
   vec_y (positionP (updateSimpleMovement d p)) = max 0 (vec_y (positionP p))"
proof -
  obtain tx tz where t: "targetVelocity (input p) = (tx, tz)"
    by fastforce
  show ?thesis
    unfolding updateSimpleMovement_unfold [OF t refl refl refl refl]
    by simp
qed

lemma normalizeDelta_jump:
  "normalizeDelta now dt (p\<lparr> input := i \<rparr>) = normalizeDelta now dt p"
  by (simp add: normalizeDelta_def split: jsval.splits)

lemma newPlayer_fallback:
  "\<not> isPhysicsEnabled pw \<Longrightarrow>
     newPlayer pid r now b x y z (pw, st)
       = (\<lparr> id_player = pid, color = generateRandomColor r, lastUpdate = now,
            onGround = False, input = noInput,
            positionP = Vec3 x y z, velocityP = Vec3 0 0 0, body = None \<rparr>, pw, st)"
  by (simp add: newPlayer_def createPhysicsBody_def noInput_def)

lemma hypot_zero_right: "0 \<le> a \<Longrightarrow> hypot a 0 = a"
  by (simp add: hypot_def)

lemma targetVelocity_right: "targetVelocity (noInput\<lparr> right := True \<rparr>) = (SPEED, 0)"
  using SPEED_pos by (simp add: targetVelocity_def noInput_def hypot_zero_right)

lemma updateSimpleMovement_right_150:
  "updateSimpleMovement (3 / 20) (fallbackPlayer (Vec3 0 0 0) (noInput\<lparr> right := True \<rparr>))
     = (fallbackPlayer (Vec3 0 0 0) (noInput\<lparr> right := True \<rparr>))
         \<lparr> velocityP := Vec3 (162 / 25) 0 0, positionP := Vec3 (243 / 250000) 0 0 \<rparr>"
proof -
  have t: "targetVelocity (input (fallbackPlayer (Vec3 0 0 0) (noInput\<lparr> right := True \<rparr>))) = (SPEED, 0)"
    by (simp add: fallbackPlayer_sel targetVelocity_right)
  show ?thesis
    unfolding updateSimpleMovement_unfold [OF t refl refl refl refl]
    by (simp add: fallbackPlayer_def Vec3_def VELOCITY_LERP_def SPEED_def xxxx_def)
qed

section \<open>The grounded jump gate\<close>

subsection \<open>The ground probe of the concrete solver\<close>

lemma fold_min_le: "fold min ds (d::real) \<le> d \<and> (\<forall>x \<in> set ds. fold min ds d \<le> x)"
proof (induction ds arbitrary: d)
  case Nil
  show ?case by simp
next
  case (Cons a ds)
  from Cons.IH [of "min a d"] show ?case
    by (auto simp: min_le_iff_disj)
qed

lemma closestHit_le:
  assumes "x \<in> set ds"
  shows "hasHit (closestHit ds) \<and> distance (closestHit ds) \<le> x"
proof (cases ds)
  case Nil
  with assms show ?thesis by simp
next
  case (Cons d ds')
  with assms fold_min_le [of ds' d] show ?thesis
    by (auto simp: closestHit_def)
qed

lemma own_face_hit:
  assumes "b \<in> set (bodies w)"
  shows "0.9 \<in> set (rayHits w st (Vec3 (vec_x (position (st b))) (vec_y (position (st b))) (vec_z (position (st b))))
                       (Vec3 (vec_x (position (st b))) (vec_y (position (st b)) - 1.05) (vec_z (position (st b)))))"
proof -
  let ?q = "position (st b)"
  let ?s = "Vec3 (vec_x ?q) (vec_y ?q) (vec_z ?q)"
  let ?e = "Vec3 (vec_x ?q) (vec_y ?q - 1.05) (vec_z ?q)"
  let ?faces = "concat (map (\<lambda>b. boxFaces ?s (position (st b))) (bodies w)) @ [- 0.5]"
  have "vec_y ?q - 0.9 \<in> set (boxFaces ?s ?q)"
    by (simp add: boxFaces_def Vec3_sel)
  with assms have face: "vec_y ?q - 0.9 \<in> set ?faces"
    by auto
  have "vec_y ?s - (vec_y ?q - 0.9) = 0.9"
    by (simp add: Vec3_sel)
  with face have img: "0.9 \<in> set (map (\<lambda>h. vec_y ?s - h) ?faces)"
    unfolding set_map by (metis (no_types, lifting) image_eqI)
  have rng: "(0::real) \<le> 0.9 \<and> 0.9 \<le> vec_y ?s - vec_y ?e"
    by (simp add: Vec3_sel)
  from img rng show ?thesis
    unfolding rayHits_def set_filter by blast
qed

lemma groundProbe_box:
  assumes "b \<in> set (bodies w)"
  shows "groundProbe boxEngine w st b"
  using closestHit_le [OF own_face_hit [OF assms, of st]]
  by (simp add: groundProbe_def boxEngine_def Let_def)

subsection \<open>The jump in the movement step and over a tick\<close>

lemma update_physics_steps:
  assumes b: "body p = Some b" and en: "isPhysicsEnabled pw" and w: "getWorld pw = Some w"
      and m: "applyMovementForces (normalizeDelta now dt p)
                (p\<lparr> positionP := Vec3 (vec_x (position (st b))) (vec_y (position (st b))) (vec_z (position (st b))),
                    velocityP := Vec3 (vec_x (velocity (st b))) (vec_y (velocity (st b))) (vec_z (velocity (st b))),
                    onGround := groundProbe E w st b \<rparr>, st) = (p1, st1)"
      and f: "applyFloatiness pw b (p1, st1) = (p2, st2)"
      and c: "applyBoundaryConstraints
                (p2, st2(b := (st2 b)\<lparr> angularVelocity := (angularVelocity (st2 b))\<lparr> vec_x := 0, vec_z := 0 \<rparr> \<rparr>))
                = (p4, st4)"
  shows "update E pw now dt (p, st) = Inr (p4\<lparr> lastUpdate := now \<rparr>, st4)"
proof -
  let ?p0 = "p\<lparr> positionP := Vec3 (vec_x (position (st b))) (vec_y (position (st b))) (vec_z (position (st b))),
                velocityP := Vec3 (vec_x (velocity (st b))) (vec_y (velocity (st b))) (vec_z (velocity (st b))) \<rparr>"
  have b0: "body ?p0 = Some b" using b by simp
  have g: "checkGroundContact E pw (?p0, st) = Inr (?p0\<lparr> onGround := groundProbe E w st b \<rparr>, st)"
    by (rule ground_frame [OF b0 w])
  show ?thesis
    using b en by (simp add: update_def Let_def g m f c)
qed

lemma targetVelocity_jumpHeld: "targetVelocity jumpHeld = (0, 0)"
  by (simp add: jumpHeld_def targetVelocity_jump targetVelocity_noInput)

lemma clampHorizontal_zero: "0 \<le> l \<Longrightarrow> vec_x v = 0 \<Longrightarrow> vec_z v = 0 \<Longrightarrow> clampHorizontal l v = v"
  by (simp add: clampHorizontal_def hypot_def)

text \<open>A tick in which a Player at rest horizontally, with no directional intent held and
  \<open>jump\<close> held, is found on the ground and inside the bounds.\<close>

lemma update_jump_from_rest:
  assumes b: "body p = Some b" and en: "isPhysicsEnabled pw" and w: "getWorld pw = Some w"
      and probe: "groundProbe E w st b"
      and i: "input p = jumpHeld"
      and vx: "vec_x (velocity (st b)) = 0" and vz: "vec_z (velocity (st b)) = 0"
      and inb: "\<not> (\<bar>vec_x (position (st b))\<bar> > boundary \<or> \<bar>vec_z (position (st b))\<bar> > boundary
                    \<or> vec_y (position (st b)) < - 10)"
  shows "\<exists>p' st'. update E pw now dt (p, st) = Inr (p', st') \<and>
           \<not> onGround p' \<and> input p' = jumpHeld \<and> body p' = Some b \<and>
           st' b = (st b)\<lparr> velocity := (velocity (st b))\<lparr> vec_x := 0, vec_z := 0, vec_y := JUMP_FORCE \<rparr>,
                            force := Vec3 (vec_x (force (st b)))
                                          (vec_y (force (st b)) + mass (st b) * (- vec_y (gravity w)) * FLOATINESS)
                                          (vec_z (force (st b))),
                            angularVelocity := (angularVelocity (st b))\<lparr> vec_x := 0, vec_z := 0 \<rparr> \<rparr>"
proof -
  let ?p0 = "p\<lparr> positionP := Vec3 (vec_x (position (st b))) (vec_y (position (st b))) (vec_z (position (st b))),
                velocityP := Vec3 (vec_x (velocity (st b))) (vec_y (velocity (st b))) (vec_z (velocity (st b))),
                onGround := groundProbe E w st b \<rparr>"
  have b0: "body ?p0 = Some b" using b by simp
  have g0: "onGround ?p0" using probe by simp
  have t: "targetVelocity (input ?p0) = (0, 0)"
    by (simp add: i targetVelocity_jumpHeld)
  have j: "jump (input ?p0)" by (simp add: i jumpHeld_def)
  let ?v = "(velocity (st b))\<lparr> vec_x := 0, vec_z := 0, vec_y := JUMP_FORCE \<rparr>"
  let ?st1 = "st(b := (st b)\<lparr> velocity := ?v \<rparr>)"
  have mx: "MAX_HORIZONTAL_SPEED \<ge> 0" by (simp add: MAX_HORIZONTAL_SPEED_def xxxx_def)
  have m: "applyMovementForces (normalizeDelta now dt p) (?p0, st) = (?p0\<lparr> onGround := False \<rparr>, ?st1)"
    unfolding movement_ground [OF b0 g0 t refl refl]
    using j by (simp add: vx vz clampHorizontal_zero [OF mx])
  let ?f = "Vec3 0 (mass (st b) * (- vec_y (gravity w)) * FLOATINESS) 0"
  let ?st2 = "?st1(b := applyForce ?f (?st1 b))"
  have f: "applyFloatiness pw b (?p0\<lparr> onGround := False \<rparr>, ?st1) = (?p0\<lparr> onGround := False \<rparr>, ?st2)"
    by (simp add: applyFloatiness_def w FLOATINESS_def Let_def)
  let ?st3 = "?st2(b := (?st2 b)\<lparr> angularVelocity := (angularVelocity (?st2 b))\<lparr> vec_x := 0, vec_z := 0 \<rparr> \<rparr>)"
  have c: "applyBoundaryConstraints (?p0\<lparr> onGround := False \<rparr>, ?st3) = (?p0\<lparr> onGround := False \<rparr>, ?st3)"
    using inb b by (simp add: applyBoundaryConstraints_def applyForce_def Let_def)
  from update_physics_steps [OF b en w m f c]
  have "update E pw now dt (p, st) = Inr (?p0\<lparr> onGround := False, lastUpdate := now \<rparr>, ?st3)"
    by simp
  then show ?thesis
    using b by (simp add: i applyForce_def Vec3_sel)
qed

lemma movement_jump_flag:
  assumes "body p = Some b"
  shows "(jump (input p) \<and> onGround p \<longrightarrow>
            vec_y (velocity (snd (applyMovementForces d (p, st)) b)) = JUMP_FORCE \<and>
            \<not> onGround (fst (applyMovementForces d (p, st)))) \<and>
         (jump (input p) \<and> \<not> onGround p \<longrightarrow>
            vec_y (velocity (snd (applyMovementForces d (p, st)) b)) = vec_y (velocity (st b)) \<and>
            \<not> onGround (fst (applyMovementForces d (p, st))))"
proof -
  obtain p1 st1 where m: "applyMovementForces d (p, st) = (p1, st1)"
    by fastforce
  from movement_effect [OF assms m] show ?thesis
    by (simp add: m)
qed

lemma held_jump_fires_every_tick:
  assumes "body p = Some b" and "isPhysicsEnabled pw" and "getWorld pw = Some w"
      and "b \<in> set (bodies w)" and "jump (input p)"
      and "\<not> (\<bar>vec_x (position (st b))\<bar> > boundary \<or> \<bar>vec_z (position (st b))\<bar> > boundary
               \<or> vec_y (position (st b)) < - 10)"
  shows "\<exists>p' st'. update boxEngine pw now dt (p, st) = Inr (p', st') \<and>
           \<not> onGround p' \<and> vec_y (velocity (st' b)) = JUMP_FORCE"
  using update_physics [OF assms(1-3), of boxEngine now dt st] groundProbe_box [OF assms(4), of st]
    assms(5,6)
  by auto

lemma standingStore_1: "standingStore 1 = restBody (Vec3 0 0.4 0)"
  by (simp add: standingStore_def)

lemma heldJumpTick1_eq:
  "\<exists>p1 st1. heldJumpTick1 = Inr (p1, st1) \<and> \<not> onGround p1 \<and> input p1 = jumpHeld \<and>
      body p1 = Some 1 \<and>
      st1 1 = \<lparr> position = Vec3 0 0.4 0, velocity = Vec3 0 1.3 0,
                angularVelocity = Vec3 0 0 0, mass = 1, force = Vec3 0 3.437 0 \<rparr>"
proof -
  let ?w = "\<lparr> gravity = Vec3 0 (- 9.82) 0, bodies = [1] \<rparr>"
  have probe: "groundProbe boxEngine ?w standingStore 1"
    by (rule groundProbe_box) simp
  have inb: "\<not> (\<bar>vec_x (position (standingStore 1))\<bar> > boundary
                \<or> \<bar>vec_z (position (standingStore 1))\<bar> > boundary
                \<or> vec_y (position (standingStore 1)) < - 10)"
    by (simp add: standingStore_1 restBody_sel Vec3_sel boundary_def del: One_nat_def)
  from update_jump_from_rest [of "physicsPlayer False jumpHeld" 1 pwOn ?w boxEngine standingStore
      16 "JNum (1 / 60)", OF _ _ _ probe _ _ _ inb]
  show ?thesis
    unfolding heldJumpTick1_def
    by (simp add: physicsPlayer_sel pwOn_sel standingStore_1 restBody_sel Vec3_sel del: One_nat_def)
       (auto simp: restBody_def Vec3_def JUMP_FORCE_def FLOATINESS_def simp del: One_nat_def)
qed

lemma step_pwOn_1:
  "step boxEngine dt pwOn st 1 = freeFlight dt (Vec3 0 (- 9.82) 0) (st 1)"
  by (simp add: step_def pwOn_def boxEngine_def del: One_nat_def)

text \<open>
  Claim C1, on two consecutive ticks with \<open>jump\<close> held. A physics-backed Player
  stands with its centre at height 0.4. The update of the first tick sets the vertical
  velocity to \<open>JUMP_FORCE\<close> and clears the grounded flag. The solver step of the next
  tick leaves the body higher, at about 0.4199, and still rising, at about 1.1936: it
  has not come back to the ground. The update of that tick recomputes the flag from the
  ray cast, which starts at the centre of the Player's own box and hits its lower face
  at distance 0.9, below the tolerance 1.01, and sets the vertical velocity to
  \<open>JUMP_FORCE\<close> again: the jump fires a second time with no new ground contact in
  between.
\<close>

theorem held_jump_refires:
  "map_sum id (\<lambda>r. (onGround (fst r), vec_y (velocity (snd r 1)))) heldJumpTick1
     = Inr (False, JUMP_FORCE) \<and>
   vec_y (position (standingStore 1)) = 0.4 \<and>
   vec_y (position (heldJumpStep 1)) = 1511617 / 3600000 \<and>
   vec_y (velocity (heldJumpStep 1)) = 71617 / 60000 \<and>
   map_sum id (\<lambda>r. (onGround (fst r), vec_y (velocity (snd r 1)))) heldJumpTick2
     = Inr (False, JUMP_FORCE)"
proof -
  let ?w = "\<lparr> gravity = Vec3 0 (- 9.82) 0, bodies = [1] \<rparr>"
  from heldJumpTick1_eq obtain p1 st1 where
    t1: "heldJumpTick1 = Inr (p1, st1)" and g1: "\<not> onGround p1" and i1: "input p1 = jumpHeld"
    and b1: "body p1 = Some 1"
    and s1: "st1 1 = \<lparr> position = Vec3 0 0.4 0, velocity = Vec3 0 1.3 0,
                angularVelocity = Vec3 0 0 0, mass = 1, force = Vec3 0 3.437 0 \<rparr>"
    by blast
  have A: "map_sum id (\<lambda>r. (onGround (fst r), vec_y (velocity (snd r 1)))) heldJumpTick1
             = Inr (False, JUMP_FORCE)"
    by (simp add: t1 g1 s1 Vec3_sel JUMP_FORCE_def del: One_nat_def)
  have mid: "heldJumpStep 1 = \<lparr> position = Vec3 0 (1511617 / 3600000) 0,
                velocity = Vec3 0 (71617 / 60000) 0,
                angularVelocity = Vec3 0 0 0, mass = 1, force = Vec3 0 0 0 \<rparr>"
    unfolding heldJumpStep_def t1
    by (simp add: step_pwOn_1 s1 freeFlight_def Vec3_sel Let_def del: One_nat_def)
  have probe: "groundProbe boxEngine ?w heldJumpStep 1"
    by (rule groundProbe_box) simp
  have inb: "\<not> (\<bar>vec_x (position (heldJumpStep 1))\<bar> > boundary
                \<or> \<bar>vec_z (position (heldJumpStep 1))\<bar> > boundary
                \<or> vec_y (position (heldJumpStep 1)) < - 10)"
    by (simp add: mid Vec3_sel boundary_def del: One_nat_def)
  have vx: "vec_x (velocity (heldJumpStep 1)) = 0" and vz: "vec_z (velocity (heldJumpStep 1)) = 0"
    by (simp_all add: mid Vec3_sel del: One_nat_def)
  from update_jump_from_rest [of p1 1 pwOn ?w boxEngine heldJumpStep 33 "JNum (1 / 60)",
      OF b1 pwOn_sel(1) pwOn_sel(2) probe i1 vx vz inb]
  obtain p2 st2 where
    t2: "update boxEngine pwOn 33 (JNum (1 / 60)) (p1, heldJumpStep) = Inr (p2, st2)"
    and g2: "\<not> onGround p2"
    and s2: "st2 1 = (heldJumpStep 1)\<lparr> velocity := (velocity (heldJumpStep 1))\<lparr> vec_x := 0, vec_z := 0, vec_y := JUMP_FORCE \<rparr>,
                            force := Vec3 (vec_x (force (heldJumpStep 1)))
                                          (vec_y (force (heldJumpStep 1)) + mass (heldJumpStep 1) * (- vec_y (gravity ?w)) * FLOATINESS)
                                          (vec_z (force (heldJumpStep 1))),
                            angularVelocity := (angularVelocity (heldJumpStep 1))\<lparr> vec_x := 0, vec_z := 0 \<rparr> \<rparr>"
    by blast
  have B: "map_sum id (\<lambda>r. (onGround (fst r), vec_y (velocity (snd r 1)))) heldJumpTick2
             = Inr (False, JUMP_FORCE)"
    unfolding heldJumpTick2_def t1
    by (simp add: t2 g2 s2 del: One_nat_def)
  have C: "vec_y (position (standingStore 1)) = 0.4"
    by (simp add: standingStore_1 restBody_sel Vec3_sel del: One_nat_def)
  from A B C mid show ?thesis
    by (simp add: Vec3_sel del: One_nat_def)
qed

section \<open>Boundary recovery\<close>

text \<open>
  Claim C2, as amended. After one update tick: in physics-backed mode, if the body's
  position exceeds the radius \<open>boundary = 48\<close> on the x or the z axis or is below the
  floor \<open>-10\<close>, the body is at the respawn point \<open>(0, 5, 0)\<close> with velocity and
  angular velocity zero; in kinematic fallback mode the x and z coordinates are the
  integrated position clamped to \<open>[-50, 50]\<close>, a bound of its own and wider than
  \<open>boundary\<close>, the y coordinate is clamped up to 0, and the store of bodies is
  untouched (no teleport).
\<close>

theorem boundary_recovery:
  "(body p = Some b \<and> isPhysicsEnabled pw \<and> getWorld pw = Some w \<and>
      (\<bar>vec_x (position (st b))\<bar> > boundary \<or> \<bar>vec_z (position (st b))\<bar> > boundary
       \<or> vec_y (position (st b)) < - 10)
    \<longrightarrow> (\<exists>p' st'. update E pw now dt (p, st) = Inr (p', st') \<and>
           position (st' b) = Vec3 0 5 0 \<and> velocity (st' b) = Vec3 0 0 0 \<and>
           angularVelocity (st' b) = Vec3 0 0 0)) \<and>
   (body p = None \<or> \<not> isPhysicsEnabled pw
    \<longrightarrow> (\<exists>p'. update E pw now dt (p, st) = Inr (p', st) \<and>
           (let d = normalizeDelta now dt p;
                d = (if d > 0.1 then d / 1000 else d)
            in vec_x (positionP p')
                 = max (- 50) (min 50 (vec_x (positionP p) + vec_x (velocityP p') * d)) \<and>
               vec_z (positionP p')
                 = max (- 50) (min 50 (vec_z (positionP p) + vec_z (velocityP p') * d)) \<and>
               vec_y (positionP p') = max 0 (vec_y (positionP p)))))"
proof (intro conjI impI)
  assume "body p = Some b \<and> isPhysicsEnabled pw \<and> getWorld pw = Some w \<and>
      (\<bar>vec_x (position (st b))\<bar> > boundary \<or> \<bar>vec_z (position (st b))\<bar> > boundary
       \<or> vec_y (position (st b)) < - 10)"
  then show "\<exists>p' st'. update E pw now dt (p, st) = Inr (p', st') \<and>
           position (st' b) = Vec3 0 5 0 \<and> velocity (st' b) = Vec3 0 0 0 \<and>
           angularVelocity (st' b) = Vec3 0 0 0"
    using update_physics_reset by blast
next
  assume fb: "body p = None \<or> \<not> isPhysicsEnabled pw"
  show "\<exists>p'. update E pw now dt (p, st) = Inr (p', st) \<and>
           (let d = normalizeDelta now dt p;
                d = (if d > 0.1 then d / 1000 else d)
            in vec_x (positionP p')
                 = max (- 50) (min 50 (vec_x (positionP p) + vec_x (velocityP p') * d)) \<and>
               vec_z (positionP p')
                 = max (- 50) (min 50 (vec_z (positionP p) + vec_z (velocityP p') * d)) \<and>
               vec_y (positionP p') = max 0 (vec_y (positionP p)))"
    unfolding update_fallback [OF fb]
    by (simp add: updateSimpleMovement_position Let_def)
qed

theorem boundary_recovery_witness:
  "(\<exists>p' st'. update boxEngine pwOn 16 (JNum (1 / 60))
        (physicsPlayer False noInput, store0(1 := restBody (Vec3 60 0 0))) = Inr (p', st') \<and>
        position (st' 1) = Vec3 0 5 0 \<and> velocity (st' 1) = Vec3 0 0 0 \<and>
        angularVelocity (st' 1) = Vec3 0 0 0) \<and>
   (\<exists>p'. update boxEngine pwOff 16 (JNum (1 / 60))
        (fallbackPlayer (Vec3 60 (- 3) 0) noInput, store0) = Inr (p', store0) \<and>
        vec_x (positionP p') = 50 \<and> vec_y (positionP p') = 0 \<and> vec_z (positionP p') = 0)"
proof -
  let ?w = "\<lparr> gravity = Vec3 0 (- 9.82) 0, bodies = [1] \<rparr>"
  have A: "\<exists>p' st'. update boxEngine pwOn 16 (JNum (1 / 60))
        (physicsPlayer False noInput, store0(1 := restBody (Vec3 60 0 0))) = Inr (p', st') \<and>
        position (st' 1) = Vec3 0 5 0 \<and> velocity (st' 1) = Vec3 0 0 0 \<and>
        angularVelocity (st' 1) = Vec3 0 0 0"
    using boundary_recovery [of "physicsPlayer False noInput" 1 pwOn ?w
        "store0(1 := restBody (Vec3 60 0 0))" boxEngine 16 "JNum (1 / 60)"]
    by (simp add: physicsPlayer_sel pwOn_sel restBody_sel Vec3_sel boundary_def)
  have B: "\<exists>p'. update boxEngine pwOff 16 (JNum (1 / 60))
        (fallbackPlayer (Vec3 60 (- 3) 0) noInput, store0) = Inr (p', store0) \<and>
        vec_x (positionP p') = 50 \<and> vec_y (positionP p') = 0 \<and> vec_z (positionP p') = 0"
    using boundary_recovery [of "fallbackPlayer (Vec3 60 (- 3) 0) noInput" 1 pwOff ?w
        store0 boxEngine 16 "JNum (1 / 60)"]
    by (simp add: update_fallback_rest fallbackPlayer_sel Vec3_sel)
  from A B show ?thesis by blast
qed

text \<open>
  The claim as stated has the fallback clamp to the same radius as the physics-backed
  mode. A fallback Participant at rest at \<open>x = 49\<close> stays there, beyond the radius 48.
\<close>

theorem fallback_clamp_counterexample:
  "map_sum id (\<lambda>r. vec_x (positionP (fst r)))
     (update boxEngine pwOff 16 (JNum (1 / 60)) (fallbackPlayer (Vec3 49 0 0) noInput, store0))
     = Inr 49 \<and> boundary < 49"
  by (simp add: update_fallback_rest boundary_def fallbackPlayer_sel) (simp add: Vec3_def)

section \<open>Normalisation of the elapsed time\<close>

text \<open>
  Claim C4 at \<open>deltaTime = 150\<close> in kinematic fallback mode, the \<open>right\<close> intent
  held, starting at rest at the origin. \<^verbatim>\<open>update\<close> divides by 1000, and
  \<^verbatim>\<open>updateSimpleMovement\<close> finds the result still above 0.1 and divides again:
  the velocity and the position after the tick are those of an elapsed time of
  \<open>150 / 1000000\<close>, namely 6.48 and 0.000972, where an elapsed time of
  \<open>150 / 1000\<close> would saturate the smoothing and put the Participant at the bound 50.
\<close>

theorem fallback_ms_converted_twice:
  "map_sum id (\<lambda>r. (vec_x (velocityP (fst r)), vec_x (positionP (fst r))))
     (update boxEngine pwOff 16 (JNum 150)
        (fallbackPlayer (Vec3 0 0 0) (noInput\<lparr> right := True \<rparr>), store0))
   = Inr (162 / 25, 243 / 250000) \<and>
   SPEED * (VELOCITY_LERP * (150 / 1000000)) = 162 / 25 \<and>
   SPEED * (VELOCITY_LERP * (150 / 1000000)) * (150 / 1000000) = 243 / 250000 \<and>
   max (- 50) (min 50 (SPEED * min 1 (VELOCITY_LERP * (150 / 1000)) * (150 / 1000))) = 50"
proof -
  let ?p = "fallbackPlayer (Vec3 0 0 0) (noInput\<lparr> right := True \<rparr>)"
  have "body ?p = None \<or> \<not> isPhysicsEnabled pwOff"
    by (simp add: fallbackPlayer_sel)
  from update_fallback [OF this, of boxEngine 16 "JNum 150" store0]
  have "update boxEngine pwOff 16 (JNum 150) (?p, store0)
          = Inr ((updateSimpleMovement (3 / 20) ?p)\<lparr> lastUpdate := 16 \<rparr>, store0)"
    by (simp add: normalizeDelta_ms)
  then show ?thesis
    by (simp add: updateSimpleMovement_right_150 Vec3_sel)
       (simp add: SPEED_def xxxx_def VELOCITY_LERP_def)
qed

section \<open>Snapshot completeness\<close>

lemma map_set_keys:
  "map fst (map_set k v m) = (if k \<in> set (map fst m) then map fst m else map fst m @ [k])"
  by (induction m) (auto simp: rev_image_eqI)

lemma map_set_distinct: "distinct (map fst m) \<Longrightarrow> distinct (map fst (map_set k v m))"
  by (simp add: map_set_keys)

lemma map_delete_distinct: "distinct (map fst m) \<Longrightarrow> distinct (map fst (map_delete k m))"
  by (simp add: map_delete_def distinct_map_filter)

lemma update_total:
  assumes "isPhysicsEnabled pw \<longrightarrow> getWorld pw \<noteq> None"
  shows "\<exists>p' st'. update E pw now dt (p, st) = Inr (p', st')"
proof (cases "body p = None \<or> \<not> isPhysicsEnabled pw")
  case True
  from update_fallback [OF True] show ?thesis by blast
next
  case False
  then obtain b w where "body p = Some b" "isPhysicsEnabled pw" "getWorld pw = Some w"
    using assms by auto
  from update_physics [OF this] show ?thesis by blast
qed

lemma updateAllPlayers_total:
  assumes "isPhysicsEnabled pw \<longrightarrow> getWorld pw \<noteq> None"
  shows "\<exists>ps' st'. updateAllPlayers E pw clock d ps st = Inr (ps', st') \<and>
           map fst ps' = map fst ps"
proof (induction ps arbitrary: st)
  case Nil
  show ?case by simp
next
  case (Cons kp ps)
  obtain k p where kp: "kp = (k, p)" by (cases kp)
  from update_total [OF assms] obtain p' st' where
    u: "update E pw (clock k) (JNum d) (p, st) = Inr (p', st')" by blast
  from Cons.IH [of st'] obtain ps' st'' where
    r: "updateAllPlayers E pw clock d ps st' = Inr (ps', st'')" "map fst ps' = map fst ps"
    by blast
  show ?case
    by (simp add: kp u r)
qed

text \<open>
  Claim C8. In a state where an enabled Physics World has its solver world, a tick of
  the game loop completes, keeps the registered identifiers, and emits a
  \<^verbatim>\<open>gameUpdate\<close> snapshot exactly when the registry is not empty at broadcast time;
  the snapshot's sequence of Participants is as long as the registry is large.
\<close>

theorem gameLoop_broadcast:
  assumes "isPhysicsEnabled (physicsWorld g) \<longrightarrow> getWorld (physicsWorld g) \<noteq> None"
  shows "\<exists>g'. gameLoop E clock now g = Inr g' \<and>
           map fst (players g') = map fst (players g) \<and>
           (if map_size (players g') > 0
            then emitted g' = emitted g @ [(''gameUpdate'', buildGameState now g')] \<and>
                 length (state_players (buildGameState now g')) = map_size (players g')
            else emitted g' = emitted g)"
proof -
  let ?g1 = "g\<lparr> lastTick := now, heap := step E (1 / 60) (physicsWorld g) (heap g) \<rparr>"
  from updateAllPlayers_total [OF assms, of E clock "real_of_int (now - lastTick g) / 1000"
      "players g" "heap ?g1"]
  obtain ps st where
    r: "updateAllPlayers E (physicsWorld g) clock (real_of_int (now - lastTick g) / 1000)
          (players g) (step E (1 / 60) (physicsWorld g) (heap g)) = Inr (ps, st)"
       "map fst ps = map fst (players g)"
    by auto
  have "gameLoop E clock now g = Inr (broadcastGameState now (?g1\<lparr> players := ps, heap := st \<rparr>))"
    using r(1) by (simp add: gameLoop_def Let_def)
  with r(2) show ?thesis
    by (auto simp: broadcastGameState_def buildGameState_def map_size_def)
qed

theorem gameLoop_broadcast_witness:
  "\<exists>g'. gameLoop boxEngine (\<lambda>k. 17) 16 managerOne = Inr g' \<and>
         emitted g' = [(''gameUpdate'', buildGameState 16 g')] \<and>
         length (state_players (buildGameState 16 g')) = 1"
proof -
  have inv: "isPhysicsEnabled (physicsWorld managerOne) \<longrightarrow> getWorld (physicsWorld managerOne) \<noteq> None"
    by (simp add: managerOne_def pwOff_sel)
  from gameLoop_broadcast [OF inv, of boxEngine "\<lambda>k. 17" 16]
  obtain g' where
    g': "gameLoop boxEngine (\<lambda>k. 17) 16 managerOne = Inr g'"
        "map fst (players g') = map fst (players managerOne)"
        "if map_size (players g') > 0
            then emitted g' = emitted managerOne @ [(''gameUpdate'', buildGameState 16 g')] \<and>
                 length (state_players (buildGameState 16 g')) = map_size (players g')
            else emitted g' = emitted managerOne"
    by blast
  from g'(2) have "length (players g') = 1"
    using length_map [of fst "players g'"] by (simp add: managerOne_def)
  with g'(1,3) show ?thesis
    by (simp add: map_size_def managerOne_def)
qed

section \<open>Idempotent teardown\<close>

lemma map_get_delete: "map_get (map_delete k m) k = None"
  by (simp add: map_get_def map_delete_def map_of_eq_None_iff image_iff)

lemma remove1_twice: "distinct xs \<Longrightarrow> remove1 b (remove1 b xs) = remove1 b xs"
  by (simp add: remove1_idem)

lemma removeBody_twice:
  assumes "\<forall>w. world pw = Some w \<longrightarrow> distinct (bodies w)"
  shows "removeBody b (removeBody b pw) = removeBody b pw"
  using assms
  by (auto simp: removeBody_def world_removeBody_def remove1_twice split: option.splits)

text \<open>
  Claim C9. A second \<^verbatim>\<open>removePlayer\<close> with the same identifier changes nothing:
  the registry, the Physics World and the rest of the state are those left by the first
  call. A second \<^verbatim>\<open>destroy\<close> of a Participant leaves the Physics World as the
  first one left it, the solver's registry holding each body at most once.
\<close>

theorem removePlayer_idempotent:
  "removePlayer pid (removePlayer pid g) = removePlayer pid g \<and>
   ((\<forall>w. world pw = Some w \<longrightarrow> distinct (bodies w))
      \<longrightarrow> destroy p (destroy p pw) = destroy p pw)"
proof
  show "removePlayer pid (removePlayer pid g) = removePlayer pid g"
    by (cases "map_get (players g) pid") (simp_all add: removePlayer_def map_get_delete)
  show "(\<forall>w. world pw = Some w \<longrightarrow> distinct (bodies w))
          \<longrightarrow> destroy p (destroy p pw) = destroy p pw"
    by (cases "body p") (simp_all add: destroy_def removeBody_twice)
qed

theorem removePlayer_idempotent_witness:
  "removePlayer ''a'' (removePlayer ''a'' managerPhysics) = removePlayer ''a'' managerPhysics \<and>
   players (removePlayer ''a'' managerPhysics) = [] \<and>
   destroy (physicsPlayer False noInput) (destroy (physicsPlayer False noInput) (physicsWorld managerPhysics))
     = destroy (physicsPlayer False noInput) (physicsWorld managerPhysics) \<and>
   destroy (physicsPlayer False noInput) (physicsWorld managerPhysics)
     = \<lparr> world = Some \<lparr> gravity = Vec3 0 (- 9.82) 0, bodies = [] \<rparr>, isEnabled = True \<rparr>"
proof -
  have d: "\<forall>w. world (physicsWorld managerPhysics) = Some w \<longrightarrow> distinct (bodies w)"
    by (simp add: managerPhysics_def)
  from removePlayer_idempotent [of "''a''" managerPhysics "physicsWorld managerPhysics"
      "physicsPlayer False noInput"] d
  have "removePlayer ''a'' (removePlayer ''a'' managerPhysics) = removePlayer ''a'' managerPhysics"
    and "destroy (physicsPlayer False noInput) (destroy (physicsPlayer False noInput) (physicsWorld managerPhysics))
     = destroy (physicsPlayer False noInput) (physicsWorld managerPhysics)"
    by blast+
  moreover have "players (removePlayer ''a'' managerPhysics) = []"
    by (simp add: removePlayer_def managerPhysics_def map_get_def map_delete_def)
  moreover have "destroy (physicsPlayer False noInput) (physicsWorld managerPhysics)
     = \<lparr> world = Some \<lparr> gravity = Vec3 0 (- 9.82) 0, bodies = [] \<rparr>, isEnabled = True \<rparr>"
    by (simp add: destroy_def physicsPlayer_sel managerPhysics_def removeBody_def world_removeBody_def)
  ultimately show ?thesis by blast
qed

section \<open>The fallback never moves a Participant vertically\<close>

text \<open>
  Claim C10. A Participant constructed with physics disabled has no body and velocity
  zero. For a Participant without a body, or with physics disabled, an update keeps the
  vertical velocity, sets the vertical position to the maximum of 0 and its old value,
  leaves the store of bodies alone, and does the same whatever the \<open>jump\<close> intent is:
  changing the intent changes nothing of the resulting state but the intent itself.
\<close>

theorem fallback_vertical:
  "(\<not> isPhysicsEnabled pw \<longrightarrow>
      body (fst (newPlayer pid r t b x y z (pw, st))) = None \<and>
      velocityP (fst (newPlayer pid r t b x y z (pw, st))) = Vec3 0 0 0) \<and>
   (body p = None \<or> \<not> isPhysicsEnabled pw \<longrightarrow>
      (\<exists>p'. update E pw now dt (p, st) = Inr (p', st) \<and>
         vec_y (velocityP p') = vec_y (velocityP p) \<and>
         vec_y (positionP p') = max 0 (vec_y (positionP p)) \<and>
         update E pw now dt (p\<lparr> input := (input p)\<lparr> jump := j \<rparr> \<rparr>, st)
           = Inr (p'\<lparr> input := (input p)\<lparr> jump := j \<rparr> \<rparr>, st)))"
proof (intro conjI impI)
  assume "\<not> isPhysicsEnabled pw"
  then show "body (fst (newPlayer pid r t b x y z (pw, st))) = None"
    and "velocityP (fst (newPlayer pid r t b x y z (pw, st))) = Vec3 0 0 0"
    by (simp_all add: newPlayer_fallback)
next
  assume fb: "body p = None \<or> \<not> isPhysicsEnabled pw"
  let ?pj = "p\<lparr> input := (input p)\<lparr> jump := j \<rparr> \<rparr>"
  have "body ?pj = None \<or> \<not> isPhysicsEnabled pw"
    using fb by simp
  from update_fallback [OF this] update_fallback [OF fb]
  show "\<exists>p'. update E pw now dt (p, st) = Inr (p', st) \<and>
         vec_y (velocityP p') = vec_y (velocityP p) \<and>
         vec_y (positionP p') = max 0 (vec_y (positionP p)) \<and>
         update E pw now dt (p\<lparr> input := (input p)\<lparr> jump := j \<rparr> \<rparr>, st)
           = Inr (p'\<lparr> input := (input p)\<lparr> jump := j \<rparr> \<rparr>, st)"
    by (simp add: updateSimpleMovement_vertical updateSimpleMovement_jump normalizeDelta_jump)
qed

theorem fallback_vertical_witness:
  "velocityP (fst (newPlayer ''a'' 0 0 1 0 2 0 (pwOff, store0))) = Vec3 0 0 0 \<and>
   update boxEngine pwOff 16 (JNum (1 / 60))
       (fallbackPlayer (Vec3 0 (- 3) 0) (noInput\<lparr> jump := True \<rparr>), store0)
     = Inr ((updateSimpleMovement (1 / 60) (fallbackPlayer (Vec3 0 (- 3) 0) noInput))
              \<lparr> lastUpdate := 16, input := noInput\<lparr> jump := True \<rparr> \<rparr>, store0) \<and>
   vec_y (positionP (updateSimpleMovement (1 / 60) (fallbackPlayer (Vec3 0 (- 3) 0) noInput))) = 0"
proof -
  let ?p = "fallbackPlayer (Vec3 0 (- 3) 0) noInput"
  have mode: "body ?p = None \<or> \<not> isPhysicsEnabled pwOff"
    by (simp add: fallbackPlayer_sel)
  have nd: "normalizeDelta 16 (JNum (1 / 60)) ?p = 1 / 60"
    by (simp add: normalizeDelta_def)
  have inp: "input ?p = noInput"
    "?p\<lparr> input := noInput\<lparr> jump := True \<rparr> \<rparr>
       = fallbackPlayer (Vec3 0 (- 3) 0) (noInput\<lparr> jump := True \<rparr>)"
    by (simp_all add: fallbackPlayer_def)
  note T = fallback_vertical [of pwOff "''a''" 0 0 1 0 2 0 store0 ?p boxEngine 16
      "JNum (1 / 60)" True]
  from T have 0: "velocityP (fst (newPlayer ''a'' 0 0 1 0 2 0 (pwOff, store0))) = Vec3 0 0 0"
    by (simp add: pwOff_sel)
  from T mode obtain p' where
    1: "update boxEngine pwOff 16 (JNum (1 / 60)) (?p, store0) = Inr (p', store0)" and
    2: "vec_y (positionP p') = max 0 (vec_y (positionP ?p))" and
    3: "update boxEngine pwOff 16 (JNum (1 / 60))
          (?p\<lparr> input := (input ?p)\<lparr> jump := True \<rparr> \<rparr>, store0)
          = Inr (p'\<lparr> input := (input ?p)\<lparr> jump := True \<rparr> \<rparr>, store0)"
    by blast
  from 1 have p': "p' = (updateSimpleMovement (1 / 60) ?p)\<lparr> lastUpdate := 16 \<rparr>"
    by (simp add: update_fallback [OF mode] nd)
  from 2 have "vec_y (positionP (updateSimpleMovement (1 / 60) ?p)) = 0"
    by (simp add: p') (simp add: fallbackPlayer_def Vec3_def)
  with 0 3 show ?thesis
    by (simp add: inp p')
qed

end
